theory Spec2Isabelle
  imports Complex_Main
begin

section \<open>The plugin manager of the godspeed command line tool\<close>

text \<open>
  A shallow embedding of package \<open>plugin\<close> (the second file held in
  \<open>src/internal/devops/devops.go\<close>) and of the helpers of package \<open>utils\<close>
  it calls. The Go code works on the file system of the project and starts the
  external programs \<open>npm\<close> and \<open>node\<close>. Here the file system is a value, every
  effect of the code on the outside is appended to a trace, and what the outside
  answers (exit codes, decoded JSON, the user's selection, a refusal of the
  operating system) is read from an environment that the theorems leave arbitrary.
\<close>

subsection \<open>Values, files, effects\<close>

text \<open>A Go \<open>error\<close> is carried as its message.\<close>

type_synonym error = string

text \<open>
  A value of type \<open>interface{}\<close> as \<open>encoding/json\<close> decodes it: numbers are
  \<open>float64\<close>, objects are maps.
\<close>

datatype jvalue =
    JNull
  | JBool bool
  | JNumber real
  | JString string
  | JArray "jvalue list"
  | JObject "(string \<times> jvalue) list"

datatype node = File string | Dir

type_synonym fsys = "string \<Rightarrow> node option"

datatype colour = Red | Yellow | Green | Cyan

text \<open>
  What the program does to the outside, in order: starting a program with its
  arguments, \<open>os.MkdirAll\<close>, \<open>ioutil.WriteFile\<close> with the bytes, \<open>os.Remove\<close>,
  a \<open>survey\<close> prompt with its options, and a line printed through package
  \<open>color\<close>. A file operation is recorded when it is attempted, whether or not
  the operating system carries it out.
\<close>

datatype event =
    Exec string "string list"
  | Mkdir string
  | Write string string
  | Delete string
  | Ask string "string list"
  | Say colour string

record world =
  fs :: fsys
  trace :: "event list"

datatype ioop = OpRead | OpWrite | OpMkdir | OpRemove

record Plugin =
  Value :: string
  Name :: string
  Description :: string

text \<open>The anonymous struct that \<open>searchPluginsFromNpm\<close> decodes into.\<close>

record search_result =
  name :: string
  description :: string
  version :: string

text \<open>The anonymous struct that \<open>getModuleInfo\<close> decodes into.\<close>

record module_info =
  ModuleType :: string
  LoaderFileName :: string
  YamlFileName :: string
  DefaultConfig :: "string \<Rightarrow> jvalue option"

text \<open>
  The outside world. \<open>run_cmd\<close> is a finished child process: its error if it
  failed, its standard output, and the file system it leaves. \<open>io_fault\<close> is the
  operating system refusing a file operation. The \<open>json_\<close> fields are
  \<open>json.Unmarshal\<close> at the four types the code decodes into, \<open>yaml_Marshal\<close> is
  \<open>yaml.Marshal\<close> on a map, \<open>survey_AskOne\<close> is the user answering a
  multi-selection.
\<close>

record env =
  os_Executable :: "error + string"
  run_cmd :: "string \<Rightarrow> string list \<Rightarrow> fsys \<Rightarrow> error option \<times> string \<times> fsys"
  io_fault :: "ioop \<Rightarrow> string \<Rightarrow> fsys \<Rightarrow> error option"
  json_Plugins :: "string \<Rightarrow> error + Plugin list"
  json_SearchResults :: "string \<Rightarrow> error + search_result list"
  json_Dependencies :: "string \<Rightarrow> error + (string \<times> string) list"
  json_ModuleInfo :: "string \<Rightarrow> error + module_info"
  yaml_Marshal :: "(string \<Rightarrow> jvalue option) \<Rightarrow> error + string"
  survey_AskOne :: "string \<Rightarrow> string list \<Rightarrow> error + string list"

subsection \<open>Strings and paths of the Go standard library\<close>

text \<open>\<open>strings.HasPrefix\<close>.\<close>

definition HasPrefix :: "string \<Rightarrow> string \<Rightarrow> bool" where
  "HasPrefix s p = (length s \<ge> length p \<and> take (length p) s = p)"

text \<open>
  \<open>strings.Split\<close> for a separator that is not empty: \<open>skip\<close> counts the
  bytes of a separator just found that are still to be passed over.
\<close>

fun split_go :: "string \<Rightarrow> nat \<Rightarrow> string \<Rightarrow> string \<Rightarrow> string list" where
  "split_go sep skip acc [] = [rev acc]"
| "split_go sep skip acc (c # cs) =
     (if skip > 0 then split_go sep (skip - 1) acc cs
      else if HasPrefix (c # cs) sep then rev acc # split_go sep (length sep - 1) [] cs
      else split_go sep 0 (c # acc) cs)"

definition Split :: "string \<Rightarrow> string \<Rightarrow> string list" where
  "Split s sep = split_go sep 0 [] s"

text \<open>\<open>strings.Join\<close>.\<close>

fun join_with :: "string \<Rightarrow> string list \<Rightarrow> string" where
  "join_with sep [] = []"
| "join_with sep [x] = x"
| "join_with sep (x # y # ys) = x @ sep @ join_with sep (y # ys)"

text \<open>
  \<open>filepath.Clean\<close> on a system whose separator is the slash. The Go code scans
  the bytes; here the path is cut at the slashes and the elements are pushed on
  a stack: an empty element and \<open>.\<close> are dropped, \<open>..\<close> removes the element
  before it when there is one that is not itself \<open>..\<close>, is dropped at the root,
  and is kept otherwise.
\<close>

fun clean_step :: "bool \<Rightarrow> string list \<Rightarrow> string \<Rightarrow> string list" where
  "clean_step rooted stack el =
     (if el = [] \<or> el = ''.'' then stack
      else if el = ''..'' then
        (case stack of
           [] \<Rightarrow> (if rooted then [] else [''..''])
         | el0 # rest \<Rightarrow> (if el0 \<noteq> ''..'' then rest else ''..'' # stack))
      else el # stack)"

definition Clean :: "string \<Rightarrow> string" where
  "Clean path =
     (if path = [] then ''.''
      else
        let rooted = (hd path = CHR ''/'');
            out = (if rooted then ''/'' else []) @
                  join_with ''/'' (rev (foldl (clean_step rooted) [] (Split path ''/'')))
        in if out = [] then ''.'' else out)"

text \<open>\<open>filepath.Join\<close>: the elements from the first one that is not empty.\<close>

fun Join :: "string list \<Rightarrow> string" where
  "Join [] = []"
| "Join (e # es) = (if e \<noteq> [] then Clean (join_with ''/'' (e # es)) else Join es)"

text \<open>\<open>filepath.Dir\<close>: the path up to and with its last slash, cleaned.\<close>

definition Dir_of :: "string \<Rightarrow> string" where
  "Dir_of path = Clean (rev (dropWhile (\<lambda>c. c \<noteq> CHR ''/'') (rev path)))"

subsection \<open>The operating system\<close>

definition emit :: "event \<Rightarrow> world \<Rightarrow> world" where
  "emit ev w = w\<lparr>trace := trace w @ [ev]\<rparr>"

text \<open>The functions of package \<open>color\<close>: a printed line in a colour.\<close>

definition say :: "colour \<Rightarrow> string \<Rightarrow> world \<Rightarrow> world" where
  "say c msg w = emit (Say c msg) w"

text \<open>
  \<open>ioutil.ReadFile\<close>. Reading what is not a regular file fails; the operating
  system may refuse a file that is there.
\<close>

definition ReadFile :: "env \<Rightarrow> string \<Rightarrow> world \<Rightarrow> error + string" where
  "ReadFile e path w =
     (case fs w path of
        Some (File data) \<Rightarrow>
          (case io_fault e OpRead path (fs w) of
             Some err \<Rightarrow> Inl err
           | None \<Rightarrow> Inr data)
      | Some Dir \<Rightarrow> Inl (''read '' @ path @ '': is a directory'')
      | None \<Rightarrow> Inl (''open '' @ path @ '': no such file or directory''))"

text \<open>
  \<open>ioutil.WriteFile\<close>: creates the file or replaces its content. A refused
  write leaves the file system as it was.
\<close>

definition WriteFile :: "env \<Rightarrow> string \<Rightarrow> string \<Rightarrow> world \<Rightarrow> error option \<times> world" where
  "WriteFile e path data w =
     (case io_fault e OpWrite path (fs w) of
        Some err \<Rightarrow> (Some err, emit (Write path data) w)
      | None \<Rightarrow> (None, emit (Write path data) (w\<lparr>fs := (fs w)(path \<mapsto> File data)\<rparr>)))"

text \<open>\<open>os.Remove\<close>.\<close>

definition Remove_file :: "env \<Rightarrow> string \<Rightarrow> world \<Rightarrow> error option \<times> world" where
  "Remove_file e path w =
     (case io_fault e OpRemove path (fs w) of
        Some err \<Rightarrow> (Some err, emit (Delete path) w)
      | None \<Rightarrow> (None, emit (Delete path) (w\<lparr>fs := (fs w)(path := None)\<rparr>)))"

text \<open>
  \<open>os.MkdirAll\<close>: the directory and every parent of it that is missing. The
  parents of a path are its prefixes that end before a slash.
\<close>

definition parents :: "string \<Rightarrow> string list" where
  "parents path = [take i path. i \<leftarrow> [1..<length path], path ! i = CHR ''/'']"

definition MkdirAll :: "env \<Rightarrow> string \<Rightarrow> world \<Rightarrow> error option \<times> world" where
  "MkdirAll e path w =
     (case io_fault e OpMkdir path (fs w) of
        Some err \<Rightarrow> (Some err, emit (Mkdir path) w)
      | None \<Rightarrow>
          (None, emit (Mkdir path)
             (w\<lparr>fs := (\<lambda>q. if q \<in> set (parents path @ [path]) \<and> fs w q = None
                             then Some Dir else fs w q)\<rparr>)))"

text \<open>
  \<open>exec.Command(...)\<close> run to its end, by \<open>Run\<close> or by \<open>Output\<close>: the error, the
  standard output, and the world with the file system the process left.
\<close>

definition run :: "env \<Rightarrow> string \<Rightarrow> string list \<Rightarrow> world \<Rightarrow> error option \<times> string \<times> world" where
  "run e cmd args w =
     (case run_cmd e cmd args (fs w) of
        (err, out, fs') \<Rightarrow> (err, out, emit (Exec cmd args) (w\<lparr>fs := fs'\<rparr>)))"

subsection \<open>Package utils\<close>

text \<open>
  \<open>FileExists\<close> and \<open>DirExists\<close>: \<open>os.Stat\<close> finds nothing, a directory, or
  something that is not a directory.
\<close>

definition FileExists :: "string \<Rightarrow> world \<Rightarrow> bool" where
  "FileExists path w = (case fs w path of None \<Rightarrow> False | Some Dir \<Rightarrow> False | Some (File _) \<Rightarrow> True)"

definition DirExists :: "string \<Rightarrow> world \<Rightarrow> bool" where
  "DirExists path w = (case fs w path of None \<Rightarrow> False | Some Dir \<Rightarrow> True | Some (File _) \<Rightarrow> False)"

definition CreateDir :: "env \<Rightarrow> string \<Rightarrow> world \<Rightarrow> error option \<times> world" where
  "CreateDir e path w = (if DirExists path w then (None, w) else MkdirAll e path w)"

definition IsGodspeedProject :: "world \<Rightarrow> bool \<times> world" where
  "IsGodspeedProject w =
     (if \<not> FileExists ''.godspeed'' w then
        (False, say Yellow ''godspeed commands work inside godspeed project directory.''
                  (say Red ''The current directory is not a Godspeed Framework project.'' w))
      else if \<not> FileExists ''package.json'' w then
        (False, say Yellow ''godspeed commands only work inside godspeed project directory.''
                  (say Red ''The current directory is not a Godspeed project.'' w))
      else (True, w))"

subsection \<open>Go maps with string keys\<close>

text \<open>
  The maps whose entries the code iterates over (the dependencies and the
  installed plugins) are association lists: the list fixes an iteration order,
  which Go leaves open. \<open>assigned\<close> is the map after the assignments
  \<open>m[k] = v\<close> made in the order of the list, and \<open>index_str\<close> is the
  expression \<open>m[k]\<close> at a string type, which is empty for a missing key.
\<close>

definition assigned :: "(string \<times> string) list \<Rightarrow> string \<Rightarrow> string option" where
  "assigned kvs = map_of (rev kvs)"

definition index_str :: "(string \<Rightarrow> string option) \<Rightarrow> string \<Rightarrow> string" where
  "index_str m k = (case m k of None \<Rightarrow> [] | Some v \<Rightarrow> v)"

subsection \<open>The catalog\<close>

text \<open>
  The loop of \<open>searchPluginsFromNpm\<close>: a result is kept when its name holds
  \<open>plugins-\<close>, and shown under what stands between the first and the second
  \<open>plugins-\<close>.
\<close>

fun convert_results :: "search_result list \<Rightarrow> Plugin list" where
  "convert_results [] = []"
| "convert_results (result # rest) =
     (let nameParts = Split (name result) ''plugins-'' in
      if length nameParts > 1
      then \<lparr>Value = name result, Name = nameParts ! 1, Description = description result\<rparr>
             # convert_results rest
      else convert_results rest)"

definition searchPluginsFromNpm :: "env \<Rightarrow> world \<Rightarrow> (error + Plugin list) \<times> world" where
  "searchPluginsFromNpm e w =
     (case run e ''npm'' [''search'', ''@godspeedsystems/plugins'', ''--json''] w of
        (Some err, output, w1) \<Rightarrow> (Inl err, w1)
      | (None, output, w1) \<Rightarrow>
          (case json_SearchResults e output of
             Inl err \<Rightarrow> (Inl err, w1)
           | Inr searchResults \<Rightarrow> (Inr (convert_results searchResults), w1)))"

definition LoadPluginsList :: "env \<Rightarrow> world \<Rightarrow> (error + Plugin list) \<times> world" where
  "LoadPluginsList e w =
     (case os_Executable e of
        Inl err \<Rightarrow> (Inl err, w)
      | Inr execPath \<Rightarrow>
          (let pluginsPath = Join [Dir_of execPath, ''assets'', ''plugins_list.json''] in
           case ReadFile e pluginsPath w of
             Inl err \<Rightarrow> searchPluginsFromNpm e w
           | Inr data \<Rightarrow>
               (case json_Plugins e data of
                  Inl err \<Rightarrow> (Inl err, w)
                | Inr plugins \<Rightarrow> (Inr plugins, w))))"

subsection \<open>The installed plugins\<close>

text \<open>
  The loop over the dependencies keeps the entries whose name has the prefix of
  the plugin namespace.
\<close>

definition GetInstalledPlugins :: "env \<Rightarrow> world \<Rightarrow> (error + (string \<times> string) list) \<times> world" where
  "GetInstalledPlugins e w =
     (case IsGodspeedProject w of
        (False, w1) \<Rightarrow> (Inl ''not a godspeed project'', w1)
      | (True, w1) \<Rightarrow>
          (let pkgPath = Join [''.'', ''package.json''] in
           if \<not> FileExists pkgPath w1 then (Inl ''package.json not found'', w1)
           else
             (case ReadFile e pkgPath w1 of
                Inl err \<Rightarrow> (Inl err, w1)
              | Inr pkgData \<Rightarrow>
                  (case json_Dependencies e pkgData of
                     Inl err \<Rightarrow> (Inl err, w1)
                   | Inr deps \<Rightarrow>
                       (Inr (filter (\<lambda>(name, version). HasPrefix name ''@godspeedsystems/plugins'')
                               deps), w1)))))"

subsection \<open>The descriptor of a plugin\<close>

definition ModuleTypeDS :: string where "ModuleTypeDS = ''DS''"
definition ModuleTypeES :: string where "ModuleTypeES = ''ES''"
definition ModuleTypeBoth :: string where "ModuleTypeBoth = ''BOTH''"

text \<open>The program text handed to \<open>node -e\<close>.\<close>

definition script :: "string \<Rightarrow> string" where
  "script pluginName =
     [CHR 0x0A, CHR 0x09, CHR 0x09] @ ''try {'' @
     [CHR 0x0A, CHR 0x09, CHR 0x09, CHR 0x09] @ ''const Module = require('' @ [CHR 0x27] @
       pluginName @ [CHR 0x27] @ '');'' @
     [CHR 0x0A, CHR 0x09, CHR 0x09, CHR 0x09] @ ''console.log(JSON.stringify({'' @
     [CHR 0x0A, CHR 0x09, CHR 0x09, CHR 0x09, CHR 0x09] @ ''moduleType: Module.SourceType,'' @
     [CHR 0x0A, CHR 0x09, CHR 0x09, CHR 0x09, CHR 0x09] @ ''loaderFileName: Module.Type,'' @
     [CHR 0x0A, CHR 0x09, CHR 0x09, CHR 0x09, CHR 0x09] @ ''yamlFileName: Module.CONFIG_FILE_NAME,'' @
     [CHR 0x0A, CHR 0x09, CHR 0x09, CHR 0x09, CHR 0x09] @ ''defaultConfig: Module.DEFAULT_CONFIG || {}'' @
     [CHR 0x0A, CHR 0x09, CHR 0x09, CHR 0x09] @ ''}));'' @
     [CHR 0x0A, CHR 0x09, CHR 0x09] @ ''} catch (e) {'' @
     [CHR 0x0A, CHR 0x09, CHR 0x09, CHR 0x09] @ ''console.error(e.message);'' @
     [CHR 0x0A, CHR 0x09, CHR 0x09, CHR 0x09] @ ''process.exit(1);'' @
     [CHR 0x0A, CHR 0x09, CHR 0x09] @ ''}'' @ [CHR 0x0A, CHR 0x09]"

definition getModuleInfo :: "env \<Rightarrow> string \<Rightarrow> world \<Rightarrow> (error + module_info) \<times> world" where
  "getModuleInfo e pluginName w =
     (case run e ''node'' [''-e'', script pluginName] w of
        (Some err, output, w1) \<Rightarrow> (Inl (''error getting module info: '' @ err), w1)
      | (None, output, w1) \<Rightarrow>
          (case json_ModuleInfo e output of
             Inl err \<Rightarrow> (Inl (''error parsing module info: '' @ err), w1)
           | Inr result \<Rightarrow> (Inr result, w1)))"

subsection \<open>Creating and removing the files of a plugin\<close>

text \<open>
  The map that becomes the YAML file: \<open>type\<close> is set first, then every entry of
  \<open>defaultConfig\<close> is assigned. The keys of a Go map are distinct, so the loop
  gives the same map in every iteration order: the entries of \<open>defaultConfig\<close>
  laid over the first map.
\<close>

definition config :: "string \<Rightarrow> (string \<Rightarrow> jvalue option) \<Rightarrow> string \<Rightarrow> jvalue option" where
  "config loaderFileName defaultConfig = [''type'' \<mapsto> JString loaderFileName] ++ defaultConfig"

text \<open>The text of the two TypeScript files, \<open>fmt.Sprintf\<close> on the plugin name.\<close>

definition eventSourceTs :: "string \<Rightarrow> string" where
  "eventSourceTs pluginName =
     [CHR 0x0A] @ ''import { EventSource } from '' @ [CHR 0x27] @ pluginName @ [CHR 0x27] @ '';'' @
     [CHR 0x0A] @ ''export default EventSource;'' @ [CHR 0x0A, CHR 0x09]"

definition dataSourceTs :: "string \<Rightarrow> string" where
  "dataSourceTs pluginName =
     [CHR 0x0A] @ ''import { DataSource } from '' @ [CHR 0x27] @ pluginName @ [CHR 0x27] @ '';'' @
     [CHR 0x0A] @ ''export default DataSource;'' @ [CHR 0x0A, CHR 0x09]"

definition createEventSourceFiles ::
  "env \<Rightarrow> string \<Rightarrow> string \<Rightarrow> string \<Rightarrow> (string \<Rightarrow> jvalue option) \<Rightarrow> world \<Rightarrow> error option \<times> world" where
  "createEventSourceFiles e pluginName loaderFileName yamlFileName defaultConfig w =
     (let typesDir = Join [''src'', ''eventsources'', ''types''] in
      case CreateDir e typesDir w of
        (Some err, w1) \<Rightarrow> (Some err, w1)
      | (None, w1) \<Rightarrow>
          (let tsContent = eventSourceTs pluginName;
               tsPath = Join [typesDir, loaderFileName @ ''.ts'']
           in case WriteFile e tsPath tsContent w1 of
                (Some err, w2) \<Rightarrow> (Some err, w2)
              | (None, w2) \<Rightarrow>
                  (case yaml_Marshal e (config loaderFileName defaultConfig) of
                     Inl err \<Rightarrow> (Some err, w2)
                   | Inr yamlData \<Rightarrow>
                       (let yamlPath = Join [''src'', ''eventsources'', yamlFileName @ ''.yaml'']
                        in WriteFile e yamlPath yamlData w2))))"

definition createDataSourceFiles ::
  "env \<Rightarrow> string \<Rightarrow> string \<Rightarrow> string \<Rightarrow> (string \<Rightarrow> jvalue option) \<Rightarrow> world \<Rightarrow> error option \<times> world" where
  "createDataSourceFiles e pluginName loaderFileName yamlFileName defaultConfig w =
     (let typesDir = Join [''src'', ''datasources'', ''types''] in
      case CreateDir e typesDir w of
        (Some err, w1) \<Rightarrow> (Some err, w1)
      | (None, w1) \<Rightarrow>
          (let tsContent = dataSourceTs pluginName;
               tsPath = Join [typesDir, loaderFileName @ ''.ts'']
           in case WriteFile e tsPath tsContent w1 of
                (Some err, w2) \<Rightarrow> (Some err, w2)
              | (None, w2) \<Rightarrow>
                  (if loaderFileName = ''prisma'' then (None, w2)
                   else
                     (case yaml_Marshal e (config loaderFileName defaultConfig) of
                        Inl err \<Rightarrow> (Some err, w2)
                      | Inr yamlData \<Rightarrow>
                          (let yamlPath = Join [''src'', ''datasources'', yamlFileName @ ''.yaml'']
                           in WriteFile e yamlPath yamlData w2)))))"

definition createPluginFiles :: "env \<Rightarrow> string \<Rightarrow> world \<Rightarrow> error option \<times> world" where
  "createPluginFiles e pluginName w =
     (case getModuleInfo e pluginName w of
        (Inl err, w1) \<Rightarrow> (Some err, w1)
      | (Inr info, w1) \<Rightarrow>
          (let moduleType = ModuleType info; loaderFileName = LoaderFileName info;
               yamlFileName = YamlFileName info; defaultConfig = DefaultConfig info
           in if moduleType = ModuleTypeBoth then
                (case createEventSourceFiles e pluginName loaderFileName yamlFileName defaultConfig w1 of
                   (Some err, w2) \<Rightarrow> (Some err, w2)
                 | (None, w2) \<Rightarrow>
                     createDataSourceFiles e pluginName loaderFileName yamlFileName defaultConfig w2)
              else if moduleType = ModuleTypeDS then
                createDataSourceFiles e pluginName loaderFileName yamlFileName defaultConfig w1
              else if moduleType = ModuleTypeES then
                createEventSourceFiles e pluginName loaderFileName yamlFileName defaultConfig w1
              else (Some (''unknown module type: '' @ moduleType), w1)))"

definition removeEventSourceFiles :: "env \<Rightarrow> string \<Rightarrow> string \<Rightarrow> world \<Rightarrow> error option \<times> world" where
  "removeEventSourceFiles e loaderFileName yamlFileName w =
     (let tsPath = Join [''src'', ''eventsources'', ''types'', loaderFileName @ ''.ts''];
          r1 = (if FileExists tsPath w then Remove_file e tsPath w else (None, w))
      in case r1 of
           (Some err, w1) \<Rightarrow> (Some err, w1)
         | (None, w1) \<Rightarrow>
             (let yamlPath = Join [''src'', ''eventsources'', yamlFileName @ ''.yaml'']
              in if FileExists yamlPath w1 then Remove_file e yamlPath w1 else (None, w1)))"

definition removeDataSourceFiles :: "env \<Rightarrow> string \<Rightarrow> string \<Rightarrow> world \<Rightarrow> error option \<times> world" where
  "removeDataSourceFiles e loaderFileName yamlFileName w =
     (let tsPath = Join [''src'', ''datasources'', ''types'', loaderFileName @ ''.ts''];
          r1 = (if FileExists tsPath w then Remove_file e tsPath w else (None, w))
      in case r1 of
           (Some err, w1) \<Rightarrow> (Some err, w1)
         | (None, w1) \<Rightarrow>
             (if loaderFileName = ''prisma'' then (None, w1)
              else
                (let yamlPath = Join [''src'', ''datasources'', yamlFileName @ ''.yaml'']
                 in if FileExists yamlPath w1 then Remove_file e yamlPath w1 else (None, w1))))"

definition removePluginFiles :: "env \<Rightarrow> string \<Rightarrow> world \<Rightarrow> error option \<times> world" where
  "removePluginFiles e pluginName w =
     (case getModuleInfo e pluginName w of
        (Inl err, w1) \<Rightarrow> (Some err, w1)
      | (Inr info, w1) \<Rightarrow>
          (let moduleType = ModuleType info; loaderFileName = LoaderFileName info;
               yamlFileName = YamlFileName info
           in if moduleType = ModuleTypeBoth then
                (case removeEventSourceFiles e loaderFileName yamlFileName w1 of
                   (Some err, w2) \<Rightarrow> (Some err, w2)
                 | (None, w2) \<Rightarrow> removeDataSourceFiles e loaderFileName yamlFileName w2)
              else if moduleType = ModuleTypeDS then
                removeDataSourceFiles e loaderFileName yamlFileName w1
              else if moduleType = ModuleTypeES then
                removeEventSourceFiles e loaderFileName yamlFileName w1
              else (Some (''unknown module type: '' @ moduleType), w1)))"

subsection \<open>The package manager\<close>

text \<open>
  The three functions start one \<open>npm\<close> process for the whole batch. The spinner
  they show while it runs is left out.
\<close>

definition npm_flags :: "string list" where
  "npm_flags = [''--quiet'', ''--no-warnings'', ''--silent'', ''--progress=false'']"

text \<open>The last line of the three functions, with the bytes the source file has.\<close>

definition happy_coding :: string where
  "happy_coding = ''Happy coding with Godspeed! '' @
     [CHR 0xC3, CHR 0xB0, CHR 0xC5, CHR 0xB8, CHR 0xC5, CHR 0xA1, CHR 0xE2, CHR 0x82, CHR 0xAC,
      CHR 0xC3, CHR 0xB0, CHR 0xC5, CHR 0xB8, CHR 0xC5, CHR 0xBD, CHR 0xE2, CHR 0x80, CHR 0xB0,
      CHR 0x0A]"

text \<open>The loop of \<open>installPlugins\<close> over the batch.\<close>

fun create_each :: "env \<Rightarrow> string list \<Rightarrow> world \<Rightarrow> world" where
  "create_each e [] w = w"
| "create_each e (pluginName # rest) w =
     (case createPluginFiles e pluginName w of
        (Some err, w1) \<Rightarrow>
          create_each e rest (say Red (''Error creating files for '' @ pluginName @ '': '' @ err) w1)
      | (None, w1) \<Rightarrow> create_each e rest w1)"

definition installPlugins :: "env \<Rightarrow> string list \<Rightarrow> world \<Rightarrow> world" where
  "installPlugins e plugins w =
     (if length plugins = 0 then w
      else
        (case run e ''npm'' ([''install''] @ plugins @ npm_flags) w of
           (Some err, output, w1) \<Rightarrow> say Red ([CHR 0x0A] @ ''Error installing plugins: '' @ err) w1
         | (None, output, w1) \<Rightarrow>
             say Cyan happy_coding
               (create_each e plugins
                  (say Green ([CHR 0x0A] @ ''Plugins installed successfully!'') w1))))"

text \<open>The loop of \<open>removePlugins\<close> over the batch.\<close>

fun remove_each :: "env \<Rightarrow> string list \<Rightarrow> world \<Rightarrow> world" where
  "remove_each e [] w = w"
| "remove_each e (pluginName # rest) w =
     (case removePluginFiles e pluginName w of
        (Some err, w1) \<Rightarrow>
          remove_each e rest (say Red (''Error removing files for '' @ pluginName @ '': '' @ err) w1)
      | (None, w1) \<Rightarrow> remove_each e rest w1)"

definition removePlugins :: "env \<Rightarrow> string list \<Rightarrow> world \<Rightarrow> world" where
  "removePlugins e plugins w =
     (if length plugins = 0 then w
      else
        (case run e ''npm'' ([''uninstall''] @ plugins @ npm_flags) (remove_each e plugins w) of
           (Some err, output, w1) \<Rightarrow> say Red ([CHR 0x0A] @ ''Error uninstalling plugins: '' @ err) w1
         | (None, output, w1) \<Rightarrow>
             say Cyan happy_coding
               (say Green ([CHR 0x0A] @ ''Plugins uninstalled successfully!'') w1)))"

definition updatePlugins :: "env \<Rightarrow> string list \<Rightarrow> world \<Rightarrow> world" where
  "updatePlugins e plugins w =
     (if length plugins = 0 then w
      else
        (case run e ''npm'' ([''update''] @ plugins @ npm_flags) w of
           (Some err, output, w1) \<Rightarrow> say Red ([CHR 0x0A] @ ''Error updating plugins: '' @ err) w1
         | (None, output, w1) \<Rightarrow>
             say Cyan happy_coding
               (say Green ([CHR 0x0A] @ ''Plugins updated successfully!'') w1)))"

subsection \<open>The commands\<close>

text \<open>\<open>survey.AskOne\<close> on a multi-selection.\<close>

definition AskOne :: "env \<Rightarrow> string \<Rightarrow> string list \<Rightarrow> world \<Rightarrow> (error + string list) \<times> world" where
  "AskOne e message options w = (survey_AskOne e message options, emit (Ask message options) w)"

definition Add :: "env \<Rightarrow> string \<Rightarrow> world \<Rightarrow> world" where
  "Add e pluginName w =
     (case IsGodspeedProject w of
        (False, w1) \<Rightarrow> w1
      | (True, w1) \<Rightarrow>
     (case LoadPluginsList e w1 of
        (Inl err, w2) \<Rightarrow> say Red (''Error loading plugins list: '' @ err) w2
      | (Inr availablePlugins, w2) \<Rightarrow>
     (case GetInstalledPlugins e w2 of
        (Inl err, w3) \<Rightarrow> say Red (''Error checking installed plugins: '' @ err) w3
      | (Inr installedPlugins, w3) \<Rightarrow>
          (let missingPlugins =
                 filter (\<lambda>plugin. map_of installedPlugins (Value plugin) = None) availablePlugins
           in
           if pluginName = [] then
             (if length missingPlugins = 0 then say Red ''All plugins are already installed.'' w3
              else
                (let options = map (\<lambda>plugin. Name plugin @ '' - '' @ Description plugin) missingPlugins;
                     optionsMap = assigned (zip options (map Value missingPlugins))
                 in case AskOne e ''Please select godspeed plugin to install:'' options w3 of
                      (Inl err, w4) \<Rightarrow> say Red (''Error: '' @ err) w4
                    | (Inr selectedPlugins, w4) \<Rightarrow>
                        (if length selectedPlugins = 0 then say Red ''No plugins selected.'' w4
                         else installPlugins e (map (index_str optionsMap) selectedPlugins) w4)))
           else
             (if \<not> list_ex (\<lambda>plugin. Value plugin = pluginName) availablePlugins then
                say Red ([CHR 0x0A] @ ''Please provide a valid plugin name.'' @ [CHR 0x0A]) w3
              else if map_of installedPlugins pluginName \<noteq> None then
                say Yellow (''Plugin '' @ pluginName @ '' is already installed.'') w3
              else
                say Yellow (''https://www.npmjs.com/package/'' @ pluginName @ [CHR 0x0A])
                  (say Cyan ([CHR 0x0A] @ ''For detailed documentation and examples, visit:'')
                     (installPlugins e [pluginName] w3)))))))"

text \<open>
  The options of the prompts of \<open>Remove\<close> and \<open>Update\<close>: an installed plugin
  with its description from the catalog.
\<close>

definition described :: "Plugin list \<Rightarrow> (string \<times> string) list \<Rightarrow> (string \<times> string) list" where
  "described availablePlugins installedPlugins =
     (let pluginDescriptions =
            assigned (map (\<lambda>plugin. (Value plugin, Description plugin)) availablePlugins)
      in map (\<lambda>(name, version).
                (let description = index_str pluginDescriptions name;
                     description = (if description = [] then ''No description available''
                                    else description)
                 in (name @ '' - '' @ description, name)))
           installedPlugins)"

definition Remove :: "env \<Rightarrow> string \<Rightarrow> world \<Rightarrow> world" where
  "Remove e pluginName w =
     (case IsGodspeedProject w of
        (False, w1) \<Rightarrow> w1
      | (True, w1) \<Rightarrow>
     (case GetInstalledPlugins e w1 of
        (Inl err, w2) \<Rightarrow> say Red (''Error checking installed plugins: '' @ err) w2
      | (Inr installedPlugins, w2) \<Rightarrow>
          (if length installedPlugins = 0 then
             say Red ''There are no eventsource/datasource plugins installed.'' w2
           else if pluginName \<noteq> [] then
             (if map_of installedPlugins pluginName = None then
                say Red (''Plugin '' @ pluginName @ '' is not installed.'') w2
              else removePlugins e [pluginName] w2)
           else
             (case LoadPluginsList e w2 of
                (Inl err, w3) \<Rightarrow> say Red (''Error loading plugins list: '' @ err) w3
              | (Inr availablePlugins, w3) \<Rightarrow>
                  (let entries = described availablePlugins installedPlugins;
                       options = map fst entries;
                       optionsMap = assigned entries
                   in case AskOne e ''Please select godspeed plugin to uninstall:'' options w3 of
                        (Inl err, w4) \<Rightarrow> say Red (''Error: '' @ err) w4
                      | (Inr selectedPlugins, w4) \<Rightarrow>
                          (if length selectedPlugins = 0 then
                             say Red ''No plugins selected to remove.'' w4
                           else removePlugins e (map (index_str optionsMap) selectedPlugins) w4))))))"

definition Update :: "env \<Rightarrow> world \<Rightarrow> world" where
  "Update e w =
     (case IsGodspeedProject w of
        (False, w1) \<Rightarrow> w1
      | (True, w1) \<Rightarrow>
     (case GetInstalledPlugins e w1 of
        (Inl err, w2) \<Rightarrow> say Red (''Error checking installed plugins: '' @ err) w2
      | (Inr installedPlugins, w2) \<Rightarrow>
          (if length installedPlugins = 0 then
             say Red ''There are no eventsource/datasource plugins installed.'' w2
           else
             (case LoadPluginsList e w2 of
                (Inl err, w3) \<Rightarrow> say Red (''Error loading plugins list: '' @ err) w3
              | (Inr availablePlugins, w3) \<Rightarrow>
                  (let entries = described availablePlugins installedPlugins;
                       options = map fst entries;
                       optionsMap = assigned entries
                   in case AskOne e ''Please select godspeed plugin to update:'' options w3 of
                        (Inl err, w4) \<Rightarrow> say Red (''Error: '' @ err) w4
                      | (Inr selectedPlugins, w4) \<Rightarrow>
                          (if length selectedPlugins = 0 then
                             say Red ''No plugins selected to update.'' w4
                           else updatePlugins e (map (index_str optionsMap) selectedPlugins) w4))))))"

subsection \<open>Reading a trace\<close>

text \<open>The files a stretch of the trace writes, with their bytes, in order.\<close>

fun writes :: "event list \<Rightarrow> (string \<times> string) list" where
  "writes [] = []"
| "writes (Write path data # evs) = (path, data) # writes evs"
| "writes (ev # evs) = writes evs"

text \<open>
  The world \<open>w'\<close> comes after \<open>w\<close>, and every effect in between satisfies
  \<open>P\<close>.
\<close>

definition emits :: "(event \<Rightarrow> bool) \<Rightarrow> world \<Rightarrow> world \<Rightarrow> bool" where
  "emits P w w' = (\<exists>evs. trace w' = trace w @ evs \<and> list_all P evs)"

text \<open>No run of \<open>npm\<close> changes what is at the path \<open>q\<close>.\<close>

definition npm_keeps :: "env \<Rightarrow> string \<Rightarrow> bool" where
  "npm_keeps e q = (\<forall>args f. snd (snd (run_cmd e ''npm'' args f)) q = f q)"

subsection \<open>A sample project\<close>

text \<open>
  A project directory on a machine where the operating system refuses nothing
  and \<open>npm\<close> succeeds without touching the files. The manifest lists two
  plugins and one ordinary dependency; the catalog next to the executable lists
  two plugins, one of them installed. Loading a plugin in \<open>node\<close> gives a
  descriptor for both roles whose default configuration has a \<open>type\<close> of its
  own, except for one plugin whose package is broken.
\<close>

definition demo_deps :: "(string \<times> string) list" where
  "demo_deps = [(''@godspeedsystems/plugins-mongo-as-datasource'', ''^1.0.0''),
                (''express'', ''^4.18.2''),
                (''@godspeedsystems/plugins-legacy'', ''^0.1.0'')]"

definition demo_catalog :: "Plugin list" where
  "demo_catalog =
     [\<lparr>Value = ''@godspeedsystems/plugins-mongo-as-datasource'', Name = ''mongo-as-datasource'',
       Description = ''mongo as a datasource''\<rparr>,
      \<lparr>Value = ''@godspeedsystems/plugins-kafka-as-datasource-as-eventsource'',
       Name = ''kafka-as-datasource-as-eventsource'', Description = ''kafka''\<rparr>]"

definition demo_config :: "string \<Rightarrow> jvalue option" where
  "demo_config = [''type'' \<mapsto> JString ''custom'', ''uri'' \<mapsto> JString ''x'']"

definition demo_info :: module_info where
  "demo_info = \<lparr>ModuleType = ''BOTH'', LoaderFileName = ''mongo'', YamlFileName = ''mongo-cfg'',
                 DefaultConfig = demo_config\<rparr>"

definition demo_env :: env where
  "demo_env = \<lparr>
     os_Executable = Inr ''/usr/local/bin/godspeed'',
     run_cmd = (\<lambda>cmd args f.
        if cmd = ''node'' then
          (if args = [''-e'', script ''@godspeedsystems/plugins-broken'']
           then (Some ''exit status 1'', [], f) else (None, ''info'', f))
        else (None, ''results'', f)),
     io_fault = (\<lambda>op path f. None),
     json_Plugins = (\<lambda>data. if data = ''catalog'' then Inr demo_catalog
                             else Inl ''invalid character''),
     json_SearchResults = (\<lambda>data. if data = ''results'' then Inr []
                                   else Inl ''invalid character''),
     json_Dependencies = (\<lambda>data. if data = ''manifest'' then Inr demo_deps
                                  else Inl ''invalid character''),
     json_ModuleInfo = (\<lambda>data. if data = ''info'' then Inr demo_info
                                else Inl ''invalid character''),
     yaml_Marshal = (\<lambda>m. case m ''type'' of
                            Some (JString t) \<Rightarrow> Inr (''type: '' @ t @ [CHR 0x0A])
                          | _ \<Rightarrow> Inl ''cannot marshal''),
     survey_AskOne = (\<lambda>msg options. Inr options)\<rparr>"

definition demo_fs :: fsys where
  "demo_fs = [''.godspeed'' \<mapsto> File [], ''package.json'' \<mapsto> File ''manifest'',
              ''/usr/local/bin/assets/plugins_list.json'' \<mapsto> File ''catalog'']"

definition demo_world :: world where
  "demo_world = \<lparr>fs = demo_fs, trace = []\<rparr>"

text \<open>The same machine with an \<open>npm\<close> that fails and leaves the files alone.\<close>

definition failing_env :: env where
  "failing_env = demo_env\<lparr>run_cmd := (\<lambda>cmd args f. (Some ''exit status 1'', [], f))\<rparr>"


section \<open>Properties\<close>

subsection \<open>Basic facts\<close>

lemma fs_emit: "fs (emit ev w) = fs w"
  by (simp add: emit_def)

lemma trace_emit: "trace (emit ev w) = trace w @ [ev]"
  by (simp add: emit_def)

lemma fs_say: "fs (say c m w) = fs w"
  by (simp add: say_def emit_def)

lemma trace_say: "trace (say c m w) = trace w @ [Say c m]"
  by (simp add: say_def emit_def)

lemma pkgPath_eq: "Join [''.'', ''package.json''] = ''package.json''"
  by code_simp

declare Join.simps [simp del]

lemma map_of_filter_key:
  "map_of (filter (\<lambda>(k, v). P k) xs) k = (if P k then map_of xs k else None)"
  by (induction xs) auto

subsection \<open>The installed plugins are the dependencies in the plugin namespace\<close>

text \<open>
  C6. In a project whose manifest decodes to the dependencies \<open>deps\<close>,
  \<open>GetInstalledPlugins\<close> returns the entries of \<open>deps\<close> whose name starts with
  \<open>@godspeedsystems/plugins\<close> and no other: looking a name up in the result
  gives its version in \<open>deps\<close> if the name has the prefix and nothing
  otherwise, so a name without the prefix is never in the result.
\<close>

theorem GetInstalledPlugins_namespace:
  assumes "FileExists ''.godspeed'' w"
    and "fs w ''package.json'' = Some (File pkgData)"
    and "io_fault e OpRead ''package.json'' (fs w) = None"
    and "json_Dependencies e pkgData = Inr deps"
  shows "\<exists>plugins. GetInstalledPlugins e w = (Inr plugins, w) \<and>
           plugins = filter (\<lambda>(name, version). HasPrefix name ''@godspeedsystems/plugins'') deps \<and>
           (\<forall>name. map_of plugins name =
                (if HasPrefix name ''@godspeedsystems/plugins'' then map_of deps name else None)) \<and>
           (\<forall>name. \<not> HasPrefix name ''@godspeedsystems/plugins'' \<longrightarrow> name \<notin> fst ` set plugins)"
proof -
  let ?plugins = "filter (\<lambda>(name, version). HasPrefix name ''@godspeedsystems/plugins'') deps"
  have ex: "FileExists ''package.json'' w"
    using assms(2) by (simp add: FileExists_def)
  have proj: "IsGodspeedProject w = (True, w)"
    using assms(1) ex by (simp add: IsGodspeedProject_def)
  have rd: "ReadFile e ''package.json'' w = Inr pkgData"
    using assms(2,3) by (simp add: ReadFile_def)
  have run: "GetInstalledPlugins e w = (Inr ?plugins, w)"
    by (simp add: GetInstalledPlugins_def proj pkgPath_eq ex rd assms(4))
  have look: "map_of ?plugins name =
      (if HasPrefix name ''@godspeedsystems/plugins'' then map_of deps name else None)" for name
    by (rule map_of_filter_key)
  have out: "name \<notin> fst ` set ?plugins" if "\<not> HasPrefix name ''@godspeedsystems/plugins''" for name
    using that by auto
  show ?thesis using run look out by blast
qed

theorem GetInstalledPlugins_namespace_witness:
  "GetInstalledPlugins demo_env demo_world =
     (Inr [(''@godspeedsystems/plugins-mongo-as-datasource'', ''^1.0.0''),
           (''@godspeedsystems/plugins-legacy'', ''^0.1.0'')], demo_world) \<and>
   ''express'' \<in> fst ` set demo_deps"
proof -
  have a1: "FileExists ''.godspeed'' demo_world"
    by (simp add: FileExists_def demo_world_def demo_fs_def)
  have a2: "fs demo_world ''package.json'' = Some (File ''manifest'')"
    by (simp add: demo_world_def demo_fs_def)
  have a3: "io_fault demo_env OpRead ''package.json'' (fs demo_world) = None"
    by (simp add: demo_env_def)
  have a4: "json_Dependencies demo_env ''manifest'' = Inr demo_deps"
    by (simp add: demo_env_def)
  have f: "filter (\<lambda>(name, version). HasPrefix name ''@godspeedsystems/plugins'') demo_deps
        = [(''@godspeedsystems/plugins-mongo-as-datasource'', ''^1.0.0''),
           (''@godspeedsystems/plugins-legacy'', ''^0.1.0'')]"
    by (simp add: demo_deps_def HasPrefix_def)
  show ?thesis
    using GetInstalledPlugins_namespace [OF a1 a2 a3 a4] f by (auto simp: demo_deps_def)
qed

subsection \<open>Files written and removed\<close>

lemma esTypesDir_eq: "Join [''src'', ''eventsources'', ''types''] = ''src/eventsources/types''"
  by code_simp

lemma dsTypesDir_eq: "Join [''src'', ''datasources'', ''types''] = ''src/datasources/types''"
  by code_simp

lemma prismaTs_eq:
  "Join [''src/datasources/types'', ''prisma'' @ ''.ts''] = ''src/datasources/types/prisma.ts''"
  by code_simp

lemma prismaTs_eq3:
  "Join [''src/datasources/types'', ''prisma.ts''] = ''src/datasources/types/prisma.ts''"
  by code_simp

lemma prismaTs_eq2:
  "Join [''src'', ''datasources'', ''types'', ''prisma'' @ ''.ts''] = ''src/datasources/types/prisma.ts''"
  by code_simp

lemma WriteFile_trace: "WriteFile e p d w = (r, w') \<Longrightarrow> trace w' = trace w @ [Write p d]"
  by (auto simp: WriteFile_def trace_emit split: option.splits)

lemma WriteFile_fs:
  "WriteFile e p d w = (r, w') \<Longrightarrow> fs w' = (if r = None then (fs w)(p \<mapsto> File d) else fs w)"
  by (auto simp: WriteFile_def fs_emit split: option.splits)

lemma Remove_file_trace: "Remove_file e p w = (r, w') \<Longrightarrow> trace w' = trace w @ [Delete p]"
  by (auto simp: Remove_file_def trace_emit split: option.splits)

lemma Remove_file_fs:
  "Remove_file e p w = (r, w') \<Longrightarrow> fs w' = (if r = None then (fs w)(p := None) else fs w)"
  by (auto simp: Remove_file_def fs_emit split: option.splits)

lemma MkdirAll_trace: "MkdirAll e p w = (r, w') \<Longrightarrow> trace w' = trace w @ [Mkdir p]"
  by (auto simp: MkdirAll_def trace_emit split: option.splits)

lemma MkdirAll_fs:
  "MkdirAll e p w = (r, w') \<Longrightarrow> q \<notin> set (parents p @ [p]) \<Longrightarrow> fs w' q = fs w q"
  by (auto simp: MkdirAll_def fs_emit split: option.splits)

lemma CreateDir_trace:
  "CreateDir e p w = (r, w') \<Longrightarrow>
     trace w' = trace w @ (if DirExists p w then [] else [Mkdir p])"
  by (auto simp: CreateDir_def dest: MkdirAll_trace split: if_splits)

lemma CreateDir_fs:
  "CreateDir e p w = (r, w') \<Longrightarrow> q \<notin> set (parents p @ [p]) \<Longrightarrow> fs w' q = fs w q"
  by (auto simp: CreateDir_def dest: MkdirAll_fs split: if_splits)


lemma run_fs: "run e cmd args w = (r, out, w') \<Longrightarrow> fs w' = snd (snd (run_cmd e cmd args (fs w)))"
  by (auto simp: run_def fs_emit split: prod.splits)

lemma createEventSourceFiles_success:
  assumes "createEventSourceFiles e p l y dc w = (None, w')"
  shows "\<exists>yamlData. yaml_Marshal e (config l dc) = Inr yamlData \<and>
           trace w' = trace w @
             (if DirExists ''src/eventsources/types'' w then [] else [Mkdir ''src/eventsources/types'']) @
             [Write (Join [''src/eventsources/types'', l @ ''.ts'']) (eventSourceTs p),
              Write (Join [''src'', ''eventsources'', y @ ''.yaml'']) yamlData]"
  using assms
  unfolding createEventSourceFiles_def esTypesDir_eq Let_def
  by (auto split: prod.splits option.splits sum.splits
           dest!: CreateDir_trace WriteFile_trace)

lemma createDataSourceFiles_success:
  assumes "createDataSourceFiles e p l y dc w = (None, w')" and "l \<noteq> ''prisma''"
  shows "\<exists>yamlData. yaml_Marshal e (config l dc) = Inr yamlData \<and>
           trace w' = trace w @
             (if DirExists ''src/datasources/types'' w then [] else [Mkdir ''src/datasources/types'']) @
             [Write (Join [''src/datasources/types'', l @ ''.ts'']) (dataSourceTs p),
              Write (Join [''src'', ''datasources'', y @ ''.yaml'']) yamlData]"
  using assms
  unfolding createDataSourceFiles_def dsTypesDir_eq Let_def
  by (auto split: prod.splits option.splits sum.splits
           dest!: CreateDir_trace WriteFile_trace)

lemma writes_append: "writes (xs @ ys) = writes xs @ writes ys"
  by (induction xs rule: writes.induct) auto

lemma createEventSourceFiles_yaml:
  assumes "createEventSourceFiles e p l y dc w = (None, w')"
  shows "\<exists>yamlData. yaml_Marshal e (config l dc) = Inr yamlData \<and>
           fs w' (Join [''src'', ''eventsources'', y @ ''.yaml'']) = Some (File yamlData)"
  using assms
  unfolding createEventSourceFiles_def esTypesDir_eq Let_def
  by (auto split: prod.splits option.splits sum.splits dest!: WriteFile_fs)

lemma createDataSourceFiles_yaml:
  assumes "createDataSourceFiles e p l y dc w = (None, w')" and "l \<noteq> ''prisma''"
  shows "\<exists>yamlData. yaml_Marshal e (config l dc) = Inr yamlData \<and>
           fs w' (Join [''src'', ''datasources'', y @ ''.yaml'']) = Some (File yamlData)"
  using assms
  unfolding createDataSourceFiles_def dsTypesDir_eq Let_def
  by (auto split: prod.splits option.splits sum.splits dest!: WriteFile_fs)

lemma createDataSourceFiles_prisma_success:
  assumes "createDataSourceFiles e p ''prisma'' y dc w = (None, w')"
  shows "trace w' = trace w @
             (if DirExists ''src/datasources/types'' w then [] else [Mkdir ''src/datasources/types'']) @
             [Write ''src/datasources/types/prisma.ts'' (dataSourceTs p)]"
  using assms
  unfolding createDataSourceFiles_def dsTypesDir_eq prismaTs_eq Let_def
  by (auto split: prod.splits option.splits sum.splits
           dest!: CreateDir_trace WriteFile_trace)

lemma parents_dsTypes: "parents ''src/datasources/types'' = [''src'', ''src/datasources'']"
  by code_simp

lemma createDataSourceFiles_prisma_trace:
  "\<exists>evs. trace (snd (createDataSourceFiles e p ''prisma'' y dc w)) = trace w @ evs \<and>
         set evs \<subseteq> {Mkdir ''src/datasources/types'',
                    Write ''src/datasources/types/prisma.ts'' (dataSourceTs p)}"
  unfolding createDataSourceFiles_def dsTypesDir_eq prismaTs_eq Let_def
  by (auto split: prod.splits option.splits sum.splits if_splits
           dest!: CreateDir_trace WriteFile_trace)

lemma createDataSourceFiles_prisma_fs:
  assumes "q \<notin> {''src'', ''src/datasources'', ''src/datasources/types'',
                ''src/datasources/types/prisma.ts''}"
  shows "fs (snd (createDataSourceFiles e p ''prisma'' y dc w)) q = fs w q"
  using assms
  unfolding createDataSourceFiles_def dsTypesDir_eq prismaTs_eq Let_def
  by (auto split: prod.splits option.splits sum.splits if_splits
           dest!: CreateDir_fs [where q = q] WriteFile_fs simp: parents_dsTypes)

lemma removeDataSourceFiles_prisma_trace:
  "\<exists>evs. trace (snd (removeDataSourceFiles e ''prisma'' y w)) = trace w @ evs \<and>
         set evs \<subseteq> {Delete ''src/datasources/types/prisma.ts''}"
  unfolding removeDataSourceFiles_def prismaTs_eq2 Let_def
  by (auto split: prod.splits option.splits if_splits dest!: Remove_file_trace)

lemma removeDataSourceFiles_prisma_fs:
  assumes "q \<noteq> ''src/datasources/types/prisma.ts''"
  shows "fs (snd (removeDataSourceFiles e ''prisma'' y w)) q = fs w q"
  using assms
  unfolding removeDataSourceFiles_def prismaTs_eq2 Let_def
  by (auto split: prod.splits option.splits if_splits dest!: Remove_file_fs)

lemma createEventSourceFiles_runs:
  assumes "\<And>op path f. io_fault e op path f = None"
    and "yaml_Marshal e (config l dc) = Inr yamlData"
  shows "fst (createEventSourceFiles e p l y dc w) = None"
  using assms(2)
  by (simp add: createEventSourceFiles_def CreateDir_def MkdirAll_def WriteFile_def assms(1) Let_def)

lemma createDataSourceFiles_runs:
  assumes "\<And>op path f. io_fault e op path f = None"
    and "yaml_Marshal e (config l dc) = Inr yamlData"
  shows "fst (createDataSourceFiles e p l y dc w) = None"
  using assms(2)
  by (simp add: createDataSourceFiles_def CreateDir_def MkdirAll_def WriteFile_def assms(1) Let_def)

lemma demo_io_fault: "io_fault demo_env op path f = None"
  by (simp add: demo_env_def)

lemma demo_yaml_Marshal:
  "yaml_Marshal demo_env (config ''mongo'' demo_config) = Inr (''type: custom'' @ [CHR 0x0A])"
  by (simp add: demo_env_def config_def demo_config_def)

lemma demo_mongo_ts:
  "Join [''src/eventsources/types'', ''mongo'' @ ''.ts''] = ''src/eventsources/types/mongo.ts''"
  "Join [''src/datasources/types'', ''mongo'' @ ''.ts''] = ''src/datasources/types/mongo.ts''"
  by code_simp+

lemma demo_mongo_yaml:
  "Join [''src'', ''eventsources'', ''mongo-cfg'' @ ''.yaml''] = ''src/eventsources/mongo-cfg.yaml''"
  "Join [''src'', ''datasources'', ''mongo-cfg'' @ ''.yaml''] = ''src/datasources/mongo-cfg.yaml''"
  by code_simp+

subsection \<open>The YAML file holds the loader type under the default configuration\<close>

text \<open>
  C4. The map that \<open>createEventSourceFiles\<close> and \<open>createDataSourceFiles\<close> marshal
  has \<open>type\<close> set to the loader name first and every entry of the default
  configuration assigned after it: at \<open>type\<close> the value of the default
  configuration wins when it has one, and every other key has the value of the
  default configuration. When the call succeeds (for a data source: with a
  loader other than \<open>prisma\<close>), its last effect is the write of the marshalled
  map to the role's \<open>.yaml\<close> path, and the file is there afterwards.
\<close>

theorem yaml_config_merge:
  "config l dc ''type'' = (case dc ''type'' of None \<Rightarrow> Some (JString l) | Some v \<Rightarrow> Some v) \<and>
   (\<forall>k. k \<noteq> ''type'' \<longrightarrow> config l dc k = dc k) \<and>
   (createEventSourceFiles e p l y dc w = (None, w') \<longrightarrow>
      (\<exists>yamlData. yaml_Marshal e (config l dc) = Inr yamlData \<and>
         last (trace w') = Write (Join [''src'', ''eventsources'', y @ ''.yaml'']) yamlData \<and>
         fs w' (Join [''src'', ''eventsources'', y @ ''.yaml'']) = Some (File yamlData))) \<and>
   (l \<noteq> ''prisma'' \<and> createDataSourceFiles e p l y dc w = (None, w') \<longrightarrow>
      (\<exists>yamlData. yaml_Marshal e (config l dc) = Inr yamlData \<and>
         last (trace w') = Write (Join [''src'', ''datasources'', y @ ''.yaml'']) yamlData \<and>
         fs w' (Join [''src'', ''datasources'', y @ ''.yaml'']) = Some (File yamlData)))"
proof (intro conjI allI impI)
  show "config l dc ''type'' = (case dc ''type'' of None \<Rightarrow> Some (JString l) | Some v \<Rightarrow> Some v)"
    by (simp add: config_def map_add_def split: option.splits)
next
  fix k :: string assume "k \<noteq> ''type''"
  then show "config l dc k = dc k"
    by (simp add: config_def map_add_def split: option.splits)
next
  assume run: "createEventSourceFiles e p l y dc w = (None, w')"
  from createEventSourceFiles_success [OF run] createEventSourceFiles_yaml [OF run]
  show "\<exists>yamlData. yaml_Marshal e (config l dc) = Inr yamlData \<and>
         last (trace w') = Write (Join [''src'', ''eventsources'', y @ ''.yaml'']) yamlData \<and>
         fs w' (Join [''src'', ''eventsources'', y @ ''.yaml'']) = Some (File yamlData)"
    by auto
next
  assume "l \<noteq> ''prisma'' \<and> createDataSourceFiles e p l y dc w = (None, w')"
  then have np: "l \<noteq> ''prisma''" and run: "createDataSourceFiles e p l y dc w = (None, w')"
    by simp_all
  from createDataSourceFiles_success [OF run np] createDataSourceFiles_yaml [OF run np]
  show "\<exists>yamlData. yaml_Marshal e (config l dc) = Inr yamlData \<and>
         last (trace w') = Write (Join [''src'', ''datasources'', y @ ''.yaml'']) yamlData \<and>
         fs w' (Join [''src'', ''datasources'', y @ ''.yaml'']) = Some (File yamlData)"
    by auto
qed

theorem yaml_config_merge_witness:
  "config ''mongo'' demo_config ''type'' = Some (JString ''custom'') \<and>
   config ''mongo'' demo_config ''uri'' = Some (JString ''x'') \<and>
   fs (snd (createEventSourceFiles demo_env ''@godspeedsystems/plugins-mongo-as-datasource''
              ''mongo'' ''mongo-cfg'' demo_config demo_world))
      ''src/eventsources/mongo-cfg.yaml'' = Some (File (''type: custom'' @ [CHR 0x0A])) \<and>
   fs (snd (createDataSourceFiles demo_env ''@godspeedsystems/plugins-mongo-as-datasource''
              ''mongo'' ''mongo-cfg'' demo_config demo_world))
      ''src/datasources/mongo-cfg.yaml'' = Some (File (''type: custom'' @ [CHR 0x0A]))"
proof -
  let ?p = "''@godspeedsystems/plugins-mongo-as-datasource''"
  let ?es = "createEventSourceFiles demo_env ?p ''mongo'' ''mongo-cfg'' demo_config demo_world"
  let ?ds = "createDataSourceFiles demo_env ?p ''mongo'' ''mongo-cfg'' demo_config demo_world"
  have es: "?es = (None, snd ?es)"
    using createEventSourceFiles_runs [OF demo_io_fault demo_yaml_Marshal, of "?p" "''mongo-cfg''" demo_world]
    by (simp add: prod_eq_iff)
  have ds: "?ds = (None, snd ?ds)"
    using createDataSourceFiles_runs [OF demo_io_fault demo_yaml_Marshal, of "?p" "''mongo-cfg''" demo_world]
    by (simp add: prod_eq_iff)
  have np: "''mongo'' \<noteq> ''prisma''" by simp
  note inst = yaml_config_merge [of "''mongo''" demo_config demo_env "?p" "''mongo-cfg''" demo_world]
  have t: "demo_config ''type'' = Some (JString ''custom'')"
    and u: "demo_config ''uri'' = Some (JString ''x'')"
    by (simp_all add: demo_config_def)
  have c1: "config ''mongo'' demo_config ''type'' = Some (JString ''custom'')"
    using inst [of "snd ?es"] t by simp
  have c2: "config ''mongo'' demo_config ''uri'' = Some (JString ''x'')"
    using inst [of "snd ?es"] u by simp
  have c3: "fs (snd ?es) ''src/eventsources/mongo-cfg.yaml'' = Some (File (''type: custom'' @ [CHR 0x0A]))"
    using inst [of "snd ?es"] es demo_yaml_Marshal demo_mongo_yaml by auto
  have c4: "fs (snd ?ds) ''src/datasources/mongo-cfg.yaml'' = Some (File (''type: custom'' @ [CHR 0x0A]))"
    using inst [of "snd ?ds"] ds np demo_yaml_Marshal demo_mongo_yaml by auto
  show ?thesis using c1 c2 c3 c4 by blast
qed

subsection \<open>No YAML file for prisma under the data sources\<close>

text \<open>
  C5. For the loader \<open>prisma\<close>, \<open>createDataSourceFiles\<close> attempts nothing but
  making the types directory and writing \<open>src/datasources/types/prisma.ts\<close>
  (and does exactly that when it succeeds), so every other path, a \<open>.yaml\<close>
  file among them, keeps what it had; \<open>removeDataSourceFiles\<close> attempts
  nothing but deleting that one file and leaves every other path alone.
\<close>

theorem prisma_datasource_no_yaml:
  "(\<exists>evs. trace (snd (createDataSourceFiles e p ''prisma'' y dc w)) = trace w @ evs \<and>
          set evs \<subseteq> {Mkdir ''src/datasources/types'',
                     Write ''src/datasources/types/prisma.ts'' (dataSourceTs p)}) \<and>
   (fst (createDataSourceFiles e p ''prisma'' y dc w) = None \<longrightarrow>
      trace (snd (createDataSourceFiles e p ''prisma'' y dc w)) = trace w @
        (if DirExists ''src/datasources/types'' w then [] else [Mkdir ''src/datasources/types'']) @
        [Write ''src/datasources/types/prisma.ts'' (dataSourceTs p)]) \<and>
   (\<forall>q. q \<notin> {''src'', ''src/datasources'', ''src/datasources/types'',
               ''src/datasources/types/prisma.ts''} \<longrightarrow>
        fs (snd (createDataSourceFiles e p ''prisma'' y dc w)) q = fs w q) \<and>
   (\<exists>evs. trace (snd (removeDataSourceFiles e ''prisma'' y w)) = trace w @ evs \<and>
          set evs \<subseteq> {Delete ''src/datasources/types/prisma.ts''}) \<and>
   (\<forall>q. q \<noteq> ''src/datasources/types/prisma.ts'' \<longrightarrow>
        fs (snd (removeDataSourceFiles e ''prisma'' y w)) q = fs w q)"
proof -
  have ok: "trace (snd (createDataSourceFiles e p ''prisma'' y dc w)) = trace w @
        (if DirExists ''src/datasources/types'' w then [] else [Mkdir ''src/datasources/types'']) @
        [Write ''src/datasources/types/prisma.ts'' (dataSourceTs p)]"
    if "fst (createDataSourceFiles e p ''prisma'' y dc w) = None"
    using that createDataSourceFiles_prisma_success
      [of e p y dc w "snd (createDataSourceFiles e p ''prisma'' y dc w)"]
    by (simp add: prod_eq_iff)
  show ?thesis
    using createDataSourceFiles_prisma_trace [of e p y dc w] ok
        createDataSourceFiles_prisma_fs [of _ e p y dc w]
        removeDataSourceFiles_prisma_trace [of e y w]
        removeDataSourceFiles_prisma_fs [of _ e y w]
    by blast
qed

theorem prisma_datasource_no_yaml_witness:
  "fs (snd (createDataSourceFiles demo_env ''@godspeedsystems/plugins-prisma-as-datastore''
              ''prisma'' ''prisma'' Map.empty demo_world)) ''src/datasources/prisma.yaml'' = None \<and>
   trace (snd (createDataSourceFiles demo_env ''@godspeedsystems/plugins-prisma-as-datastore''
              ''prisma'' ''prisma'' Map.empty demo_world)) =
     [Mkdir ''src/datasources/types'',
      Write ''src/datasources/types/prisma.ts''
        (dataSourceTs ''@godspeedsystems/plugins-prisma-as-datastore'')] \<and>
   fs (snd (removeDataSourceFiles demo_env ''prisma'' ''prisma''
              \<lparr>fs = demo_fs(''src/datasources/prisma.yaml'' \<mapsto> File ''schema''), trace = []\<rparr>))
      ''src/datasources/prisma.yaml'' = Some (File ''schema'')"
proof -
  let ?p = "''@godspeedsystems/plugins-prisma-as-datastore''"
  let ?w = "\<lparr>fs = demo_fs(''src/datasources/prisma.yaml'' \<mapsto> File ''schema''), trace = []\<rparr>"
  note c = prisma_datasource_no_yaml [of demo_env "?p" "''prisma''" Map.empty demo_world]
  note r = prisma_datasource_no_yaml [of demo_env "?p" "''prisma''" Map.empty "?w"]
  have ok: "fst (createDataSourceFiles demo_env ?p ''prisma'' ''prisma'' Map.empty demo_world) = None"
    by (simp add: createDataSourceFiles_def CreateDir_def MkdirAll_def WriteFile_def
          demo_io_fault Let_def)
  have nd: "\<not> DirExists ''src/datasources/types'' demo_world"
    by (simp add: DirExists_def demo_world_def demo_fs_def)
  have a: "fs (snd (createDataSourceFiles demo_env ?p ''prisma'' ''prisma'' Map.empty demo_world))
             ''src/datasources/prisma.yaml'' = None"
    using c by (simp add: demo_world_def demo_fs_def)
  have b: "trace (snd (createDataSourceFiles demo_env ?p ''prisma'' ''prisma'' Map.empty demo_world)) =
     [Mkdir ''src/datasources/types'', Write ''src/datasources/types/prisma.ts'' (dataSourceTs ?p)]"
    using c ok nd by (simp add: demo_world_def)
  have d: "fs (snd (removeDataSourceFiles demo_env ''prisma'' ''prisma'' ?w))
             ''src/datasources/prisma.yaml'' = Some (File ''schema'')"
    using r by simp
  show ?thesis using a b d by blast
qed

lemma createEventSourceFiles_files:
  assumes "createEventSourceFiles e p l y dc w = (None, w')"
  shows "\<exists>yamlData. yaml_Marshal e (config l dc) = Inr yamlData \<and>
           fs w' (Join [''src'', ''eventsources'', y @ ''.yaml'']) = Some (File yamlData) \<and>
           fs w' (Join [''src/eventsources/types'', l @ ''.ts'']) =
             Some (File (if Join [''src/eventsources/types'', l @ ''.ts''] =
                            Join [''src'', ''eventsources'', y @ ''.yaml'']
                         then yamlData else eventSourceTs p))"
  using assms
  unfolding createEventSourceFiles_def esTypesDir_eq Let_def
  by (auto split: prod.splits option.splits sum.splits dest!: WriteFile_fs)

lemma createDataSourceFiles_files:
  assumes "createDataSourceFiles e p l y dc w = (None, w')" and "l \<noteq> ''prisma''"
  shows "\<exists>yamlData. yaml_Marshal e (config l dc) = Inr yamlData \<and>
           fs w' (Join [''src'', ''datasources'', y @ ''.yaml'']) = Some (File yamlData) \<and>
           fs w' (Join [''src/datasources/types'', l @ ''.ts'']) =
             Some (File (if Join [''src/datasources/types'', l @ ''.ts''] =
                            Join [''src'', ''datasources'', y @ ''.yaml'']
                         then yamlData else dataSourceTs p))"
  using assms
  unfolding createDataSourceFiles_def dsTypesDir_eq Let_def
  by (auto split: prod.splits option.splits sum.splits dest!: WriteFile_fs)

lemma createDataSourceFiles_prisma_file:
  assumes "createDataSourceFiles e p ''prisma'' y dc w = (None, w')"
  shows "fs w' ''src/datasources/types/prisma.ts'' = Some (File (dataSourceTs p))"
  using assms
  unfolding createDataSourceFiles_def dsTypesDir_eq prismaTs_eq Let_def
  by (auto split: prod.splits option.splits sum.splits dest!: WriteFile_fs)

lemma createEventSourceFiles_same_files:
  assumes "createEventSourceFiles e p l y dc w1 = (None, w1')"
    and "createEventSourceFiles e p l y dc w2 = (None, w2')"
  shows "fs w1' (Join [''src/eventsources/types'', l @ ''.ts'']) =
         fs w2' (Join [''src/eventsources/types'', l @ ''.ts'']) \<and>
         fs w1' (Join [''src'', ''eventsources'', y @ ''.yaml'']) =
         fs w2' (Join [''src'', ''eventsources'', y @ ''.yaml''])"
  using createEventSourceFiles_files [OF assms(1)] createEventSourceFiles_files [OF assms(2)]
  by auto

lemma createDataSourceFiles_same_files:
  assumes "createDataSourceFiles e p l y dc w1 = (None, w1')"
    and "createDataSourceFiles e p l y dc w2 = (None, w2')"
  shows "fs w1' (Join [''src/datasources/types'', l @ ''.ts'']) =
         fs w2' (Join [''src/datasources/types'', l @ ''.ts'']) \<and>
         (l \<noteq> ''prisma'' \<longrightarrow>
            fs w1' (Join [''src'', ''datasources'', y @ ''.yaml'']) =
            fs w2' (Join [''src'', ''datasources'', y @ ''.yaml'']))"
proof (cases "l = ''prisma''")
  case True
  with createDataSourceFiles_prisma_file [of e p y dc w1 w1']
       createDataSourceFiles_prisma_file [of e p y dc w2 w2'] assms
  show ?thesis by (simp add: prismaTs_eq3)
next
  case False
  with createDataSourceFiles_files [OF assms(1)] createDataSourceFiles_files [OF assms(2)]
  show ?thesis by auto
qed

subsection \<open>Creating the files twice writes the same bytes at the same paths\<close>

text \<open>
  C9. Two successful calls of \<open>createEventSourceFiles\<close> with the same plugin
  name and descriptor, from any two states of the world (the second may be the
  state the first one left), write the same files with the same bytes: the
  TypeScript file at the path made of the loader name, then the YAML file at the
  path made of the configuration name; and after either call these two paths
  hold the same files. The same holds for \<open>createDataSourceFiles\<close>, where the
  YAML file is left out for \<open>prisma\<close>. The paths depend on the role, the loader
  name and the configuration name only.
\<close>

theorem create_files_deterministic:
  "(createEventSourceFiles e p l y dc w1 = (None, w1') \<and>
    createEventSourceFiles e p l y dc w2 = (None, w2') \<longrightarrow>
      (\<exists>evs1 evs2 yamlData.
         trace w1' = trace w1 @ evs1 \<and> trace w2' = trace w2 @ evs2 \<and>
         yaml_Marshal e (config l dc) = Inr yamlData \<and>
         writes evs1 = [(Join [''src/eventsources/types'', l @ ''.ts''], eventSourceTs p),
                        (Join [''src'', ''eventsources'', y @ ''.yaml''], yamlData)] \<and>
         writes evs2 = writes evs1) \<and>
      fs w1' (Join [''src/eventsources/types'', l @ ''.ts'']) =
      fs w2' (Join [''src/eventsources/types'', l @ ''.ts'']) \<and>
      fs w1' (Join [''src'', ''eventsources'', y @ ''.yaml'']) =
      fs w2' (Join [''src'', ''eventsources'', y @ ''.yaml''])) \<and>
   (createDataSourceFiles e p l y dc w1 = (None, w1') \<and>
    createDataSourceFiles e p l y dc w2 = (None, w2') \<longrightarrow>
      (\<exists>evs1 evs2.
         trace w1' = trace w1 @ evs1 \<and> trace w2' = trace w2 @ evs2 \<and>
         writes evs1 =
           (Join [''src/datasources/types'', l @ ''.ts''], dataSourceTs p) #
           (if l = ''prisma'' then []
            else case yaml_Marshal e (config l dc) of
                   Inl err \<Rightarrow> []
                 | Inr yamlData \<Rightarrow> [(Join [''src'', ''datasources'', y @ ''.yaml''], yamlData)]) \<and>
         writes evs2 = writes evs1) \<and>
      fs w1' (Join [''src/datasources/types'', l @ ''.ts'']) =
      fs w2' (Join [''src/datasources/types'', l @ ''.ts'']) \<and>
      (l \<noteq> ''prisma'' \<longrightarrow>
         fs w1' (Join [''src'', ''datasources'', y @ ''.yaml'']) =
         fs w2' (Join [''src'', ''datasources'', y @ ''.yaml''])))"
proof (intro conjI impI)
  assume "createEventSourceFiles e p l y dc w1 = (None, w1') \<and>
          createEventSourceFiles e p l y dc w2 = (None, w2')"
  then have r1: "createEventSourceFiles e p l y dc w1 = (None, w1')"
    and r2: "createEventSourceFiles e p l y dc w2 = (None, w2')" by simp_all
  from createEventSourceFiles_success [OF r1] obtain d1 where
    m1: "yaml_Marshal e (config l dc) = Inr d1" and
    t1: "trace w1' = trace w1 @
           (if DirExists ''src/eventsources/types'' w1 then [] else [Mkdir ''src/eventsources/types'']) @
           [Write (Join [''src/eventsources/types'', l @ ''.ts'']) (eventSourceTs p),
            Write (Join [''src'', ''eventsources'', y @ ''.yaml'']) d1]" by blast
  from createEventSourceFiles_success [OF r2] m1 have
    t2: "trace w2' = trace w2 @
           (if DirExists ''src/eventsources/types'' w2 then [] else [Mkdir ''src/eventsources/types'']) @
           [Write (Join [''src/eventsources/types'', l @ ''.ts'']) (eventSourceTs p),
            Write (Join [''src'', ''eventsources'', y @ ''.yaml'']) d1]" by auto
  show "\<exists>evs1 evs2 yamlData.
         trace w1' = trace w1 @ evs1 \<and> trace w2' = trace w2 @ evs2 \<and>
         yaml_Marshal e (config l dc) = Inr yamlData \<and>
         writes evs1 = [(Join [''src/eventsources/types'', l @ ''.ts''], eventSourceTs p),
                        (Join [''src'', ''eventsources'', y @ ''.yaml''], yamlData)] \<and>
         writes evs2 = writes evs1"
    apply (rule exI [where x = "(if DirExists ''src/eventsources/types'' w1 then [] else [Mkdir ''src/eventsources/types'']) @
           [Write (Join [''src/eventsources/types'', l @ ''.ts'']) (eventSourceTs p),
            Write (Join [''src'', ''eventsources'', y @ ''.yaml'']) d1]"])
    apply (rule exI [where x = "(if DirExists ''src/eventsources/types'' w2 then [] else [Mkdir ''src/eventsources/types'']) @
           [Write (Join [''src/eventsources/types'', l @ ''.ts'']) (eventSourceTs p),
            Write (Join [''src'', ''eventsources'', y @ ''.yaml'']) d1]"])
    apply (rule exI [where x = d1])
    using t1 t2 m1 by (simp add: writes_append)
  from createEventSourceFiles_same_files [OF r1 r2]
  show "fs w1' (Join [''src/eventsources/types'', l @ ''.ts'']) =
        fs w2' (Join [''src/eventsources/types'', l @ ''.ts''])"
    and "fs w1' (Join [''src'', ''eventsources'', y @ ''.yaml'']) =
         fs w2' (Join [''src'', ''eventsources'', y @ ''.yaml''])"
    by simp_all
next
  assume "createDataSourceFiles e p l y dc w1 = (None, w1') \<and>
          createDataSourceFiles e p l y dc w2 = (None, w2')"
  then have r1: "createDataSourceFiles e p l y dc w1 = (None, w1')"
    and r2: "createDataSourceFiles e p l y dc w2 = (None, w2')" by simp_all
  let ?plan = "(Join [''src/datasources/types'', l @ ''.ts''], dataSourceTs p) #
           (if l = ''prisma'' then []
            else case yaml_Marshal e (config l dc) of
                   Inl err \<Rightarrow> []
                 | Inr yamlData \<Rightarrow> [(Join [''src'', ''datasources'', y @ ''.yaml''], yamlData)])"
  have key: "\<exists>evs. trace w' = trace w @ evs \<and> writes evs = ?plan"
    if r: "createDataSourceFiles e p l y dc w = (None, w')" for w w'
  proof (cases "l = ''prisma''")
    case True
    with createDataSourceFiles_prisma_success [of e p y dc w w'] r
    show ?thesis by (auto simp: writes_append prismaTs_eq3)
  next
    case False
    from createDataSourceFiles_success [OF r False] False
    show ?thesis by (auto simp: writes_append)
  qed
  from key [OF r1] key [OF r2]
  show "\<exists>evs1 evs2.
         trace w1' = trace w1 @ evs1 \<and> trace w2' = trace w2 @ evs2 \<and>
         writes evs1 = ?plan \<and> writes evs2 = writes evs1"
    by metis
  from createDataSourceFiles_same_files [OF r1 r2]
  show "fs w1' (Join [''src/datasources/types'', l @ ''.ts'']) =
        fs w2' (Join [''src/datasources/types'', l @ ''.ts''])"
    by simp
  assume "l \<noteq> ''prisma''"
  with createDataSourceFiles_same_files [OF r1 r2]
  show "fs w1' (Join [''src'', ''datasources'', y @ ''.yaml'']) =
        fs w2' (Join [''src'', ''datasources'', y @ ''.yaml''])"
    by simp
qed

theorem create_files_deterministic_witness:
  "\<exists>w1 w2 evs1 evs2.
     createEventSourceFiles demo_env ''@godspeedsystems/plugins-mongo-as-datasource''
        ''mongo'' ''mongo-cfg'' demo_config demo_world = (None, w1) \<and>
     createEventSourceFiles demo_env ''@godspeedsystems/plugins-mongo-as-datasource''
        ''mongo'' ''mongo-cfg'' demo_config w1 = (None, w2) \<and>
     trace w1 = trace demo_world @ evs1 \<and> trace w2 = trace w1 @ evs2 \<and>
     writes evs1 = [(''src/eventsources/types/mongo.ts'',
                     eventSourceTs ''@godspeedsystems/plugins-mongo-as-datasource''),
                    (''src/eventsources/mongo-cfg.yaml'', ''type: custom'' @ [CHR 0x0A])] \<and>
     writes evs2 = writes evs1 \<and>
     fs w1 ''src/eventsources/types/mongo.ts'' = fs w2 ''src/eventsources/types/mongo.ts'' \<and>
     fs w1 ''src/eventsources/mongo-cfg.yaml'' = fs w2 ''src/eventsources/mongo-cfg.yaml''"
proof -
  let ?p = "''@godspeedsystems/plugins-mongo-as-datasource''"
  let ?r1 = "createEventSourceFiles demo_env ?p ''mongo'' ''mongo-cfg'' demo_config demo_world"
  let ?r2 = "createEventSourceFiles demo_env ?p ''mongo'' ''mongo-cfg'' demo_config (snd ?r1)"
  have r1: "?r1 = (None, snd ?r1)"
    using createEventSourceFiles_runs [OF demo_io_fault demo_yaml_Marshal, of "?p" "''mongo-cfg''" demo_world]
    by (simp add: prod_eq_iff)
  have r2: "?r2 = (None, snd ?r2)"
    using createEventSourceFiles_runs [OF demo_io_fault demo_yaml_Marshal, of "?p" "''mongo-cfg''" "snd ?r1"]
    by (simp add: prod_eq_iff)
  note es = conjunct1 [OF create_files_deterministic
    [of demo_env "?p" "''mongo''" "''mongo-cfg''" demo_config demo_world "snd ?r1" "snd ?r1" "snd ?r2"]]
  have "?r1 = (None, snd ?r1) \<and> ?r2 = (None, snd ?r2)"
    using r1 r2 by blast
  from mp [OF es this]
  obtain evs1 evs2 yamlData where
    "trace (snd ?r1) = trace demo_world @ evs1" "trace (snd ?r2) = trace (snd ?r1) @ evs2"
    "yaml_Marshal demo_env (config ''mongo'' demo_config) = Inr yamlData"
    "writes evs1 = [(Join [''src/eventsources/types'', ''mongo'' @ ''.ts''], eventSourceTs ?p),
                    (Join [''src'', ''eventsources'', ''mongo-cfg'' @ ''.yaml''], yamlData)]"
    "writes evs2 = writes evs1"
    "fs (snd ?r1) (Join [''src/eventsources/types'', ''mongo'' @ ''.ts'']) =
     fs (snd ?r2) (Join [''src/eventsources/types'', ''mongo'' @ ''.ts''])"
    "fs (snd ?r1) (Join [''src'', ''eventsources'', ''mongo-cfg'' @ ''.yaml'']) =
     fs (snd ?r2) (Join [''src'', ''eventsources'', ''mongo-cfg'' @ ''.yaml''])"
    by blast
  then show ?thesis
    using r1 r2 demo_yaml_Marshal demo_mongo_ts demo_mongo_yaml by (metis sum.inject(2))
qed

subsection \<open>The catalog and the commands\<close>

lemma snapshotPath_demo:
  "Join [Dir_of ''/usr/local/bin/godspeed'', ''assets'', ''plugins_list.json'']
     = ''/usr/local/bin/assets/plugins_list.json''"
  by code_simp

lemma IsGodspeedProject_True:
  "FileExists ''.godspeed'' w \<Longrightarrow> FileExists ''package.json'' w \<Longrightarrow> IsGodspeedProject w = (True, w)"
  by (simp add: IsGodspeedProject_def)

lemma GetInstalledPlugins_Inr_world:
  "GetInstalledPlugins e w = (Inr plugins, w') \<Longrightarrow> w' = w"
  by (auto simp: GetInstalledPlugins_def IsGodspeedProject_def Let_def
           split: if_splits sum.splits)

lemma GetInstalledPlugins_fst:
  "fst (GetInstalledPlugins e w) =
     (if \<not> FileExists ''.godspeed'' w \<or> \<not> FileExists ''package.json'' w
      then Inl ''not a godspeed project''
      else case ReadFile e ''package.json'' w of
             Inl err \<Rightarrow> Inl err
           | Inr pkgData \<Rightarrow>
               (case json_Dependencies e pkgData of
                  Inl err \<Rightarrow> Inl err
                | Inr deps \<Rightarrow>
                    Inr (filter (\<lambda>(name, version). HasPrefix name ''@godspeedsystems/plugins'') deps)))"
  by (simp add: GetInstalledPlugins_def IsGodspeedProject_def pkgPath_eq Let_def split: sum.splits)

lemma GetInstalledPlugins_fs_only:
  assumes "fs w1 = fs w2"
  shows "fst (GetInstalledPlugins e w1) = fst (GetInstalledPlugins e w2)"
proof -
  have "FileExists p w1 = FileExists p w2" for p
    by (simp add: FileExists_def assms)
  moreover have "ReadFile e p w1 = ReadFile e p w2" for p
    unfolding ReadFile_def assms by (rule refl)
  ultimately show ?thesis
    by (simp add: GetInstalledPlugins_fst)
qed

lemma searchPluginsFromNpm_trace:
  "trace (snd (searchPluginsFromNpm e w)) =
     trace w @ [Exec ''npm'' [''search'', ''@godspeedsystems/plugins'', ''--json'']]"
  by (auto simp: searchPluginsFromNpm_def run_def trace_emit split: prod.splits option.splits sum.splits)

lemma LoadPluginsList_trace:
  "\<exists>evs. trace (snd (LoadPluginsList e w)) = trace w @ evs \<and>
         set evs \<subseteq> {Exec ''npm'' [''search'', ''@godspeedsystems/plugins'', ''--json'']}"
  by (auto simp: LoadPluginsList_def Let_def searchPluginsFromNpm_trace split: sum.splits)

lemma list_ex_Value: "list_ex (\<lambda>plugin. Value plugin = n) ps \<longleftrightarrow> n \<in> Value ` set ps"
  by (auto simp: list_ex_iff)

lemma demo_project:
  "FileExists ''.godspeed'' demo_world" "FileExists ''package.json'' demo_world"
  by (simp_all add: FileExists_def demo_world_def demo_fs_def)

lemma demo_LoadPluginsList: "LoadPluginsList demo_env demo_world = (Inr demo_catalog, demo_world)"
  by (simp add: LoadPluginsList_def snapshotPath_demo ReadFile_def demo_world_def demo_fs_def
        demo_env_def)

lemma demo_installed:
  "filter (\<lambda>(name, version). HasPrefix name ''@godspeedsystems/plugins'') demo_deps =
     [(''@godspeedsystems/plugins-mongo-as-datasource'', ''^1.0.0''),
      (''@godspeedsystems/plugins-legacy'', ''^0.1.0'')]"
  by (simp add: demo_deps_def HasPrefix_def)

lemma demo_GetInstalledPlugins:
  "GetInstalledPlugins demo_env demo_world =
     (Inr [(''@godspeedsystems/plugins-mongo-as-datasource'', ''^1.0.0''),
           (''@godspeedsystems/plugins-legacy'', ''^0.1.0'')], demo_world)"
proof -
  have "ReadFile demo_env ''package.json'' demo_world = Inr ''manifest''"
    by (simp add: ReadFile_def demo_world_def demo_fs_def demo_env_def)
  moreover have "json_Dependencies demo_env ''manifest'' = Inr demo_deps"
    by (simp add: demo_env_def)
  ultimately show ?thesis
    by (simp add: GetInstalledPlugins_def IsGodspeedProject_True [OF demo_project] pkgPath_eq
          demo_project demo_installed)
qed

subsection \<open>Where the catalog comes from\<close>




subsection \<open>Adding a plugin that is already installed\<close>

text \<open>
  C7. \<open>Add\<close> with a name that is in the catalog and among the installed
  plugins ends with the yellow line \<open>Plugin ... is already installed.\<close> Before
  it the command has done nothing but, when the catalog file could not be read,
  the search on the registry: no \<open>npm install\<close>, no \<open>node\<close>, no directory
  made, no file written or removed. The files are those the loading of the
  catalog left.
\<close>

theorem Add_already_installed:
  assumes "pluginName \<noteq> []"
    and "FileExists ''.godspeed'' w" and "FileExists ''package.json'' w"
    and "LoadPluginsList e w = (Inr availablePlugins, w2)"
    and "GetInstalledPlugins e w2 = (Inr installedPlugins, w3)"
    and "pluginName \<in> Value ` set availablePlugins"
    and "pluginName \<in> fst ` set installedPlugins"
  shows "Add e pluginName w = say Yellow (''Plugin '' @ pluginName @ '' is already installed.'') w2 \<and>
         fs (Add e pluginName w) = fs w2 \<and>
         (\<exists>evs. trace (Add e pluginName w) =
                  trace w @ evs @ [Say Yellow (''Plugin '' @ pluginName @ '' is already installed.'')] \<and>
                set evs \<subseteq> {Exec ''npm'' [''search'', ''@godspeedsystems/plugins'', ''--json'']})"
proof -
  have w3: "w3 = w2"
    using assms(5) by (rule GetInstalledPlugins_Inr_world)
  have inst: "map_of installedPlugins pluginName \<noteq> None"
    using assms(7) by (simp add: map_of_eq_None_iff)
  have run: "Add e pluginName w = say Yellow (''Plugin '' @ pluginName @ '' is already installed.'') w2"
    using assms(1,4,5,6) inst w3
    by (simp add: Add_def IsGodspeedProject_True [OF assms(2,3)] Let_def list_ex_Value)
  from LoadPluginsList_trace [of e w] assms(4)
  obtain evs where evs: "trace w2 = trace w @ evs"
    "set evs \<subseteq> {Exec ''npm'' [''search'', ''@godspeedsystems/plugins'', ''--json'']}"
    by auto
  show ?thesis
    using run evs by (auto simp: fs_say trace_say)
qed

theorem Add_already_installed_witness:
  "Add demo_env ''@godspeedsystems/plugins-mongo-as-datasource'' demo_world =
     \<lparr>fs = demo_fs,
      trace = [Say Yellow ''Plugin @godspeedsystems/plugins-mongo-as-datasource is already installed.'']\<rparr>"
proof -
  have a: "''@godspeedsystems/plugins-mongo-as-datasource'' \<noteq> []" by simp
  have b: "''@godspeedsystems/plugins-mongo-as-datasource'' \<in> Value ` set demo_catalog"
    by (simp add: demo_catalog_def)
  have c: "''@godspeedsystems/plugins-mongo-as-datasource''
             \<in> fst ` set [(''@godspeedsystems/plugins-mongo-as-datasource'', ''^1.0.0''),
                          (''@godspeedsystems/plugins-legacy'', ''^0.1.0'')]"
    by simp
  from Add_already_installed [OF a demo_project demo_LoadPluginsList demo_GetInstalledPlugins b c]
  show ?thesis
    by (simp add: say_def emit_def demo_world_def)
qed

subsection \<open>Adding a plugin that is not in the catalog\<close>

text \<open>
  C10. \<open>Add\<close> with a name that is among the installed plugins but not in the
  catalog ends with the red line \<open>Please provide a valid plugin name.\<close>: the
  catalog is looked at first, and the yellow line about a plugin already
  installed is not printed.
\<close>

theorem Add_unknown_plugin:
  assumes "pluginName \<noteq> []"
    and "FileExists ''.godspeed'' w" and "FileExists ''package.json'' w"
    and "LoadPluginsList e w = (Inr availablePlugins, w2)"
    and "GetInstalledPlugins e w2 = (Inr installedPlugins, w3)"
    and "pluginName \<notin> Value ` set availablePlugins"
    and "pluginName \<in> fst ` set installedPlugins"
  shows "Add e pluginName w =
           say Red ([CHR 0x0A] @ ''Please provide a valid plugin name.'' @ [CHR 0x0A]) w2 \<and>
         (\<exists>evs. trace (Add e pluginName w) =
                  trace w @ evs @
                  [Say Red ([CHR 0x0A] @ ''Please provide a valid plugin name.'' @ [CHR 0x0A])] \<and>
                set evs \<subseteq> {Exec ''npm'' [''search'', ''@godspeedsystems/plugins'', ''--json'']} \<and>
                Say Yellow (''Plugin '' @ pluginName @ '' is already installed.'') \<notin> set evs)"
proof -
  have w3: "w3 = w2"
    using assms(5) by (rule GetInstalledPlugins_Inr_world)
  have run: "Add e pluginName w =
           say Red ([CHR 0x0A] @ ''Please provide a valid plugin name.'' @ [CHR 0x0A]) w2"
    using assms(1,4,5,6) w3
    by (simp add: Add_def IsGodspeedProject_True [OF assms(2,3)] Let_def list_ex_Value)
  from LoadPluginsList_trace [of e w] assms(4)
  obtain evs where evs: "trace w2 = trace w @ evs"
    "set evs \<subseteq> {Exec ''npm'' [''search'', ''@godspeedsystems/plugins'', ''--json'']}"
    by auto
  then have "Say Yellow (''Plugin '' @ pluginName @ '' is already installed.'') \<notin> set evs"
    by auto
  then show ?thesis
    using run evs by (auto simp: trace_say)
qed

theorem Add_unknown_plugin_witness:
  "Add demo_env ''@godspeedsystems/plugins-legacy'' demo_world =
     \<lparr>fs = demo_fs,
      trace = [Say Red ([CHR 0x0A] @ ''Please provide a valid plugin name.'' @ [CHR 0x0A])]\<rparr>"
proof -
  have a: "''@godspeedsystems/plugins-legacy'' \<noteq> []" by simp
  have b: "''@godspeedsystems/plugins-legacy'' \<notin> Value ` set demo_catalog"
    by (simp add: demo_catalog_def)
  have c: "''@godspeedsystems/plugins-legacy''
             \<in> fst ` set [(''@godspeedsystems/plugins-mongo-as-datasource'', ''^1.0.0''),
                          (''@godspeedsystems/plugins-legacy'', ''^0.1.0'')]"
    by simp
  from Add_unknown_plugin [OF a demo_project demo_LoadPluginsList demo_GetInstalledPlugins b c]
  show ?thesis
    by (simp add: say_def emit_def demo_world_def)
qed

subsection \<open>A failed install creates nothing\<close>

text \<open>
  C1. When the \<open>npm install\<close> of a batch fails, \<open>installPlugins\<close> prints the
  error and stops: the trace grows by the \<open>npm\<close> call and the red line only,
  so no file is written for any plugin of the batch, and the files are those
  the failed \<open>npm\<close> left. If \<open>npm\<close> left the files as it found them, the
  installed plugins are the same as before.
\<close>

theorem installPlugins_npm_failure:
  assumes "plugins \<noteq> []"
    and "run_cmd e ''npm'' ([''install''] @ plugins @ npm_flags) (fs w) = (Some err, out, f')"
  shows "installPlugins e plugins w =
           \<lparr>fs = f',
            trace = trace w @ [Exec ''npm'' ([''install''] @ plugins @ npm_flags),
                               Say Red ([CHR 0x0A] @ ''Error installing plugins: '' @ err)]\<rparr> \<and>
         writes (trace (installPlugins e plugins w)) = writes (trace w) \<and>
         (f' = fs w \<longrightarrow>
            fs (installPlugins e plugins w) = fs w \<and>
            fst (GetInstalledPlugins e (installPlugins e plugins w)) = fst (GetInstalledPlugins e w))"
proof -
  have run: "installPlugins e plugins w =
           \<lparr>fs = f',
            trace = trace w @ [Exec ''npm'' ([''install''] @ plugins @ npm_flags),
                               Say Red ([CHR 0x0A] @ ''Error installing plugins: '' @ err)]\<rparr>"
    using assms by (simp add: installPlugins_def run_def say_def emit_def)
  have wr: "writes (trace (installPlugins e plugins w)) = writes (trace w)"
    by (simp add: run writes_append)
  have inst: "fst (GetInstalledPlugins e (installPlugins e plugins w)) = fst (GetInstalledPlugins e w)"
    if "f' = fs w"
    by (rule GetInstalledPlugins_fs_only) (simp add: run that)
  show ?thesis
    using run wr inst by simp
qed

theorem installPlugins_npm_failure_witness:
  "installPlugins failing_env [''@godspeedsystems/plugins-kafka-as-datasource-as-eventsource'']
      demo_world =
     \<lparr>fs = demo_fs,
      trace = [Exec ''npm'' [''install'', ''@godspeedsystems/plugins-kafka-as-datasource-as-eventsource'',
                             ''--quiet'', ''--no-warnings'', ''--silent'', ''--progress=false''],
               Say Red ([CHR 0x0A] @ ''Error installing plugins: exit status 1'')]\<rparr> \<and>
   fst (GetInstalledPlugins failing_env
          (installPlugins failing_env [''@godspeedsystems/plugins-kafka-as-datasource-as-eventsource'']
             demo_world)) =
   fst (GetInstalledPlugins failing_env demo_world)"
proof -
  let ?ps = "[''@godspeedsystems/plugins-kafka-as-datasource-as-eventsource'']"
  have a: "?ps \<noteq> []" by simp
  have b: "run_cmd failing_env ''npm'' ([''install''] @ ?ps @ npm_flags) (fs demo_world)
             = (Some ''exit status 1'', [], fs demo_world)"
    by (simp add: failing_env_def)
  note t = installPlugins_npm_failure [OF a b]
  have c: "installPlugins failing_env ?ps demo_world =
     \<lparr>fs = demo_fs,
      trace = [Exec ''npm'' [''install'', ''@godspeedsystems/plugins-kafka-as-datasource-as-eventsource'',
                             ''--quiet'', ''--no-warnings'', ''--silent'', ''--progress=false''],
               Say Red ([CHR 0x0A] @ ''Error installing plugins: exit status 1'')]\<rparr>"
    using conjunct1 [OF t] by (simp add: npm_flags_def demo_world_def)
  have d: "fst (GetInstalledPlugins failing_env (installPlugins failing_env ?ps demo_world)) =
           fst (GetInstalledPlugins failing_env demo_world)"
    using conjunct2 [OF conjunct2 [OF t]] by blast
  show ?thesis
    using c d by (rule conjI)
qed

subsection \<open>Updating and removing\<close>

lemma emits_refl: "emits P w w"
  by (simp add: emits_def)

lemma emits_trans: "emits P w w1 \<Longrightarrow> emits P w1 w2 \<Longrightarrow> emits P w w2"
  by (auto simp: emits_def)

lemma emits_emit: "P ev \<Longrightarrow> emits P w (emit ev w)"
  by (simp add: emits_def trace_emit)

lemma emits_say: "P (Say c m) \<Longrightarrow> emits P w (say c m w)"
  by (simp add: say_def emits_emit)

lemma emits_say_after: "emits P w w1 \<Longrightarrow> P (Say c m) \<Longrightarrow> emits P w (say c m w1)"
  by (blast intro: emits_trans emits_say)

lemma emits_IsGodspeedProject:
  assumes "\<And>c m. P (Say c m)"
  shows "emits P w (snd (IsGodspeedProject w))"
  by (auto simp: IsGodspeedProject_def assms intro!: emits_say_after emits_refl)

lemma fs_IsGodspeedProject: "fs (snd (IsGodspeedProject w)) = fs w"
  by (simp add: IsGodspeedProject_def fs_say)

lemma emits_GetInstalledPlugins:
  assumes "\<And>c m. P (Say c m)"
  shows "emits P w (snd (GetInstalledPlugins e w))"
  using emits_IsGodspeedProject [of P w, OF assms]
  by (auto simp: GetInstalledPlugins_def Let_def split: prod.splits sum.splits bool.splits)

lemma fs_GetInstalledPlugins: "fs (snd (GetInstalledPlugins e w)) = fs w"
  using fs_IsGodspeedProject [of w]
  by (auto simp: GetInstalledPlugins_def Let_def split: prod.splits sum.splits bool.splits)

lemma emits_run: "P (Exec cmd args) \<Longrightarrow> emits P w (snd (snd (run e cmd args w)))"
  by (auto simp: run_def emits_def trace_emit split: prod.splits)

lemma fs_run_npm:
  assumes "npm_keeps e q"
  shows "fs (snd (snd (run e ''npm'' args w))) q = fs w q"
proof -
  have "snd (snd (run_cmd e ''npm'' args (fs w))) q = fs w q"
    using assms by (simp add: npm_keeps_def)
  then show ?thesis
    by (cases "run_cmd e ''npm'' args (fs w)") (simp add: run_def fs_emit)
qed

lemma emits_LoadPluginsList:
  assumes "P (Exec ''npm'' [''search'', ''@godspeedsystems/plugins'', ''--json''])"
  shows "emits P w (snd (LoadPluginsList e w))"
  using LoadPluginsList_trace [of e w] assms
  by (auto simp: emits_def list_all_iff)

lemma fs_searchPluginsFromNpm:
  "npm_keeps e q \<Longrightarrow> fs (snd (searchPluginsFromNpm e w)) q = fs w q"
  using fs_run_npm [of e q "[''search'', ''@godspeedsystems/plugins'', ''--json'']" w]
  by (auto simp: searchPluginsFromNpm_def split: prod.splits option.splits sum.splits)

lemma fs_LoadPluginsList:
  "npm_keeps e q \<Longrightarrow> fs (snd (LoadPluginsList e w)) q = fs w q"
  by (auto simp: LoadPluginsList_def Let_def fs_searchPluginsFromNpm split: sum.splits)

lemma emits_AskOne: "P (Ask msg opts) \<Longrightarrow> emits P w (snd (AskOne e msg opts w))"
  by (simp add: AskOne_def emits_emit)

lemma fs_AskOne: "fs (snd (AskOne e msg opts w)) = fs w"
  by (simp add: AskOne_def fs_emit)

lemma emits_updatePlugins:
  assumes "\<And>c m. P (Say c m)" and "P (Exec ''npm'' ([''update''] @ plugins @ npm_flags))"
  shows "emits P w (updatePlugins e plugins w)"
  using emits_run [of P "''npm''" "[''update''] @ plugins @ npm_flags" w e] assms
  by (auto simp: updatePlugins_def emits_refl split: prod.splits option.splits
           intro!: emits_say_after)

lemma fs_updatePlugins:
  "npm_keeps e q \<Longrightarrow> fs (updatePlugins e plugins w) q = fs w q"
  using fs_run_npm [of e q "[''update''] @ plugins @ npm_flags" w]
  by (auto simp: updatePlugins_def fs_say split: prod.splits option.splits)

lemma Update_emits:
  assumes say: "\<And>c m. P (Say c m)" and ask: "\<And>msg opts. P (Ask msg opts)"
    and search: "P (Exec ''npm'' [''search'', ''@godspeedsystems/plugins'', ''--json''])"
    and update: "\<And>plugins. P (Exec ''npm'' ([''update''] @ plugins @ npm_flags))"
  shows "emits P w (Update e w)"
proof -
  obtain b w1 where 1: "IsGodspeedProject w = (b, w1)" by force
  obtain r2 w2 where 2: "GetInstalledPlugins e w1 = (r2, w2)" by force
  obtain r3 w3 where 3: "LoadPluginsList e w2 = (r3, w3)" by force
  have e1: "emits P w w1"
    using emits_IsGodspeedProject [of P w, OF say] 1 by simp
  have e2: "emits P w w2"
    using emits_GetInstalledPlugins [of P w1 e, OF say] 2 e1 by (auto intro: emits_trans)
  have e3: "emits P w w3"
    using emits_LoadPluginsList [of P w2 e, OF search] 3 e2 by (auto intro: emits_trans)
  have e4: "emits P w w4" if "AskOne e msg opts w3 = (r4, w4)" for msg opts r4 w4
    using emits_AskOne [of P msg opts w3 e, OF ask] that e3 by (auto intro: emits_trans)
  have e5: "emits P w (updatePlugins e plugins w4)"
    if "AskOne e msg opts w3 = (r4, w4)" for msg opts r4 w4 plugins
    using e4 [OF that] emits_updatePlugins [of P plugins w4 e, OF say update]
    by (auto intro: emits_trans)
  show ?thesis
    using 1 2 3 e1 e2 e3 e4 e5
    by (auto simp: Update_def Let_def say split: prod.splits sum.splits bool.splits
             intro!: emits_say_after)
qed

lemma Update_fs:
  assumes "npm_keeps e q"
  shows "fs (Update e w) q = fs w q"
proof -
  obtain b w1 where 1: "IsGodspeedProject w = (b, w1)" by force
  obtain r2 w2 where 2: "GetInstalledPlugins e w1 = (r2, w2)" by force
  obtain r3 w3 where 3: "LoadPluginsList e w2 = (r3, w3)" by force
  have e1: "fs w1 = fs w"
    using fs_IsGodspeedProject [of w] 1 by simp
  have e2: "fs w2 = fs w"
    using fs_GetInstalledPlugins [of e w1] 2 e1 by simp
  have e3: "fs w3 q = fs w q"
    using fs_LoadPluginsList [OF assms, of w2] 3 e2 by simp
  have e4: "fs w4 q = fs w q" if "AskOne e msg opts w3 = (r4, w4)" for msg opts r4 w4
    using fs_AskOne [of e msg opts w3] that e3 by simp
  have e5: "fs (updatePlugins e plugins w4) q = fs w q"
    if "AskOne e msg opts w3 = (r4, w4)" for msg opts r4 w4 plugins
    using e4 [OF that] fs_updatePlugins [OF assms, of plugins w4] by simp
  show ?thesis
    using 1 2 3 e1 e2 e3 e4 e5
    by (auto simp: Update_def Let_def fs_say split: prod.splits sum.splits bool.splits)
qed

lemma demo_npm_keeps: "npm_keeps demo_env q"
  by (simp add: npm_keeps_def demo_env_def)

lemma demo_trace: "trace demo_world = []"
  by (simp add: demo_world_def)

lemma demo_Update_trace:
  "trace (Update demo_env demo_world) =
     [Ask ''Please select godspeed plugin to update:''
        [''@godspeedsystems/plugins-mongo-as-datasource - mongo as a datasource'',
         ''@godspeedsystems/plugins-legacy - No description available''],
      Exec ''npm'' [''update'', ''@godspeedsystems/plugins-mongo-as-datasource'',
                    ''@godspeedsystems/plugins-legacy'',
                    ''--quiet'', ''--no-warnings'', ''--silent'', ''--progress=false''],
      Say Green ([CHR 0x0A] @ ''Plugins updated successfully!''),
      Say Cyan happy_coding]"
proof -
  have d: "described demo_catalog
             [(''@godspeedsystems/plugins-mongo-as-datasource'', ''^1.0.0''),
              (''@godspeedsystems/plugins-legacy'', ''^0.1.0'')] =
           [(''@godspeedsystems/plugins-mongo-as-datasource - mongo as a datasource'',
             ''@godspeedsystems/plugins-mongo-as-datasource''),
            (''@godspeedsystems/plugins-legacy - No description available'',
             ''@godspeedsystems/plugins-legacy'')]"
    by (simp add: described_def demo_catalog_def assigned_def index_str_def)
  have a: "survey_AskOne demo_env msg opts = Inr opts" for msg opts
    by (simp add: demo_env_def)
  have r: "run_cmd demo_env ''npm'' args f = (None, ''results'', f)" for args f
    by (simp add: demo_env_def)
  show ?thesis
    by (simp add: Update_def IsGodspeedProject_True [OF demo_project] demo_GetInstalledPlugins
          demo_LoadPluginsList d AskOne_def a assigned_def index_str_def updatePlugins_def
          run_def r say_def emit_def npm_flags_def demo_trace)
qed










subsection \<open>Updating touches no file\<close>

text \<open>
  C8. Whatever the installed plugins and the selection, the effects of \<open>Update\<close>
  are printed lines, the prompt, the search on the registry (when the catalog
  file could not be read) and the \<open>npm update\<close> of the selection: it makes no
  directory, writes no file, removes none and never loads a plugin. Its own code
  changes no file, so a path that no run of \<open>npm\<close> changes, under
  \<open>src/datasources\<close> and \<open>src/eventsources\<close> or elsewhere, has after \<open>Update\<close>
  what it had before.
\<close>

theorem Update_touches_no_artifact:
  "(\<exists>evs. trace (Update e w) = trace w @ evs \<and>
          (\<forall>ev \<in> set evs.
             (\<exists>c m. ev = Say c m) \<or> (\<exists>msg opts. ev = Ask msg opts) \<or>
             ev = Exec ''npm'' [''search'', ''@godspeedsystems/plugins'', ''--json''] \<or>
             (\<exists>plugins. ev = Exec ''npm'' ([''update''] @ plugins @ npm_flags)))) \<and>
   writes (trace (Update e w)) = writes (trace w) \<and>
   (\<forall>q. npm_keeps e q \<longrightarrow> fs (Update e w) q = fs w q)"
proof -
  let ?P = "\<lambda>ev. (\<exists>c m. ev = Say c m) \<or> (\<exists>msg opts. ev = Ask msg opts) \<or>
             ev = Exec ''npm'' [''search'', ''@godspeedsystems/plugins'', ''--json''] \<or>
             (\<exists>plugins. ev = Exec ''npm'' ([''update''] @ plugins @ npm_flags))"
  have "emits ?P w (Update e w)"
    by (rule Update_emits) blast+
  then obtain evs where evs: "trace (Update e w) = trace w @ evs" "\<forall>ev \<in> set evs. ?P ev"
    by (auto simp: emits_def list_all_iff)
  have "writes evs = []"
    using evs(2) by (induction evs rule: writes.induct) auto
  then have "writes (trace (Update e w)) = writes (trace w)"
    by (simp add: evs(1) writes_append)
  then show ?thesis
    using evs Update_fs [of e _ w] by blast
qed

theorem Update_touches_no_artifact_witness:
  "trace (Update demo_env demo_world) =
     [Ask ''Please select godspeed plugin to update:''
        [''@godspeedsystems/plugins-mongo-as-datasource - mongo as a datasource'',
         ''@godspeedsystems/plugins-legacy - No description available''],
      Exec ''npm'' [''update'', ''@godspeedsystems/plugins-mongo-as-datasource'',
                    ''@godspeedsystems/plugins-legacy'',
                    ''--quiet'', ''--no-warnings'', ''--silent'', ''--progress=false''],
      Say Green ([CHR 0x0A] @ ''Plugins updated successfully!''),
      Say Cyan happy_coding] \<and>
   writes (trace (Update demo_env demo_world)) = [] \<and>
   fs (Update demo_env demo_world) ''src/datasources/mongo-cfg.yaml'' = None"
proof -
  note t = Update_touches_no_artifact [of demo_env demo_world]
  have w: "writes (trace (Update demo_env demo_world)) = []"
    using conjunct1 [OF conjunct2 [OF t]] by (simp add: demo_world_def)
  have "fs (Update demo_env demo_world) ''src/datasources/mongo-cfg.yaml''
          = fs demo_world ''src/datasources/mongo-cfg.yaml''"
    using conjunct2 [OF conjunct2 [OF t]] demo_npm_keeps by blast
  then have f: "fs (Update demo_env demo_world) ''src/datasources/mongo-cfg.yaml'' = None"
    by (simp add: demo_world_def demo_fs_def)
  show ?thesis
    using demo_Update_trace w f by blast
qed

subsection \<open>Removing the files comes before the uninstall\<close>



end
